theory Spec2Isabelle
  imports Main "HOL-Library.Sublist"
begin

section \<open>DualWriterMode1: the primary-authoritative dual-write synchronizer\<close>

text \<open>
  The development embeds \<^verbatim>\<open>DualWriterMode1\<close> (package \<^verbatim>\<open>rest\<close>, the Go file
  \<^verbatim>\<open>src/unnamed/part_000\<close>). Go objects are pointers, and the code mutates the objects
  behind them through accessors, so objects live in an explicit heap and a
  \<^verbatim>\<open>runtime.Object\<close> value is a reference into it. Each method is a function from the
  state before the call to an outcome and the state after it. The state holds the heap,
  the trace of observable events of the calling goroutine (store calls, directive
  resolutions, log lines, metric records) and the goroutines launched with \<^verbatim>\<open>go\<close>.
  The wall clock, contexts and their timeouts are left out: a metric record keeps its
  labels and its outcome flag, not its duration.
\<close>

subsection \<open>Objects, references and the heap\<close>

type_synonym addr = nat

text \<open>An interface value holding a pointer: \<open>Null\<close> is Go's \<^verbatim>\<open>nil\<close>.\<close>

datatype ref = Null | Ref addr

text \<open>Go's \<^verbatim>\<open>error\<close> interface is \<open>error option\<close>, with \<open>None\<close> for \<^verbatim>\<open>nil\<close>.\<close>

datatype error = Error string

record objectMeta =
  uid :: string
  resourceVersion :: string
  labels :: "string \<rightharpoonup> string"
  annotations :: "string \<rightharpoonup> string"

text \<open>
  A resource object. \<open>meta\<close> is \<open>None\<close> for an object whose type exposes no identity
  metadata (neither \<^verbatim>\<open>metav1.Object\<close> nor \<^verbatim>\<open>metav1.ObjectMetaAccessor\<close>).
\<close>

record runtimeObject =
  meta :: "objectMeta option"
  body :: string

type_synonym heap = "addr \<Rightarrow> runtimeObject"

text \<open>
  The option structs (\<^verbatim>\<open>CreateOptions\<close>, \<^verbatim>\<open>GetOptions\<close>, \<^verbatim>\<open>ListOptions\<close>,
  \<^verbatim>\<open>DeleteOptions\<close>, \<^verbatim>\<open>UpdateOptions\<close>) with the two fields the code reads. They are
  passed as non-nil pointers.
\<close>

record options =
  Kind :: string
  ResourceVersion :: string

datatype validateObjectFunc = ValidateObjectFunc nat

datatype validateObjectUpdateFunc = ValidateObjectUpdateFunc nat

subsection \<open>Update directives\<close>

text \<open>
  \<^verbatim>\<open>rest.UpdatedObjectInfo\<close>: either a directive supplied by the caller (any function of the
  heap and the current object) or the \<^verbatim>\<open>updateWrapper\<close> struct with its two fields,
  \<^verbatim>\<open>upstream\<close> first and \<^verbatim>\<open>updated\<close> second.
\<close>

datatype updatedObjectInfo =
    Directive "heap \<Rightarrow> ref \<Rightarrow> (ref \<times> error option) \<times> heap"
  | UpdateWrapper updatedObjectInfo ref

text \<open>
  Modelled from the spec: the method \<^verbatim>\<open>updateWrapper.UpdatedObject\<close> is not under
  \<^verbatim>\<open>src/\<close>. Spec 4.3: "resolve(ctx, _ignoredCurrent) -> delegate to wrapped directive's
  resolve(ctx, suppliedObject)". A caller's directive resolves by its own function.
\<close>

fun UpdatedObject :: "updatedObjectInfo \<Rightarrow> heap \<Rightarrow> ref \<Rightarrow> (ref \<times> error option) \<times> heap" where
  "UpdatedObject (Directive f) h oldObj = f h oldObj"
| "UpdatedObject (UpdateWrapper up supplied) h ignoredCurrent = UpdatedObject up h supplied"

subsection \<open>The storage port\<close>

text \<open>
  \<^verbatim>\<open>LegacyStorage\<close> and \<^verbatim>\<open>Storage\<close> are interfaces implemented elsewhere. A store is
  any record of functions: each takes the heap and the arguments of the call and returns
  the Go results and the heap after the call.
\<close>

record storage =
  sCreate :: "heap \<Rightarrow> ref \<Rightarrow> validateObjectFunc \<Rightarrow> options \<Rightarrow> (ref \<times> error option) \<times> heap"
  sGet :: "heap \<Rightarrow> string \<Rightarrow> options \<Rightarrow> (ref \<times> error option) \<times> heap"
  sList :: "heap \<Rightarrow> options \<Rightarrow> (ref \<times> error option) \<times> heap"
  sDelete :: "heap \<Rightarrow> string \<Rightarrow> validateObjectFunc \<Rightarrow> options
    \<Rightarrow> (ref \<times> bool \<times> error option) \<times> heap"
  sDeleteCollection :: "heap \<Rightarrow> validateObjectFunc \<Rightarrow> options \<Rightarrow> options
    \<Rightarrow> (ref \<times> error option) \<times> heap"
  sUpdate :: "heap \<Rightarrow> string \<Rightarrow> updatedObjectInfo \<Rightarrow> validateObjectFunc
    \<Rightarrow> validateObjectUpdateFunc \<Rightarrow> bool \<Rightarrow> options \<Rightarrow> (ref \<times> bool \<times> error option) \<times> heap"
  sGetSingularName :: string
  sNamespaceScoped :: bool
  sNew :: "heap \<Rightarrow> ref \<times> heap"
  sNewList :: "heap \<Rightarrow> ref \<times> heap"
  sConvertToTable :: "heap \<Rightarrow> ref \<Rightarrow> ref \<Rightarrow> (ref \<times> error option) \<times> heap"
  sDestroy :: "heap \<Rightarrow> heap"

record DualWriterMode1 =
  Legacy :: storage
  Storage :: storage

subsection \<open>Events, goroutines and the state\<close>

datatype backend = LegacyBackend | StorageBackend

datatype event =
    Called backend string
  | UpdatedObjectCalled ref
  | LogError error string
  | LegacyDuration bool string string string
  | StorageDuration bool string string string
  | Destroyed backend

text \<open>
  A goroutine launched by \<^verbatim>\<open>go func() { ... }()\<close>, with the variables its closure
  captures.
\<close>

datatype task =
    StorageCreateTask ref validateObjectFunc options
  | StorageGetTask string options
  | StorageListTask options
  | StorageDeleteTask string validateObjectFunc options
  | StorageDeleteCollectionTask validateObjectFunc options options
  | StorageUpdateTask string updatedObjectInfo validateObjectFunc validateObjectUpdateFunc
      bool options

record state =
  heap :: heap
  trace :: "event list"
  tasks :: "task list"

text \<open>A call returns its results or panics (a method call on a nil interface).\<close>

datatype 'a outcome = Returned 'a | Panic

definition emit :: "event \<Rightarrow> state \<Rightarrow> state" where
  "emit e s = s\<lparr>trace := trace s @ [e]\<rparr>"

definition go :: "task \<Rightarrow> state \<Rightarrow> state" where
  "go t s = s\<lparr>tasks := tasks s @ [t]\<rparr>"

definition logError :: "error \<Rightarrow> string \<Rightarrow> state \<Rightarrow> state" where
  "logError e msg s = emit (LogError e msg) s"

text \<open>The idiom \<^verbatim>\<open>if err != nil { log.Error(err, msg) }\<close>.\<close>

definition logIfError :: "error option \<Rightarrow> string \<Rightarrow> state \<Rightarrow> state" where
  "logIfError err msg s = (case err of None \<Rightarrow> s | Some e \<Rightarrow> logError e msg s)"

text \<open>
  Modelled from the spec: the methods \<^verbatim>\<open>recordLegacyDuration\<close> and
  \<^verbatim>\<open>recordStorageDuration\<close> of \<^verbatim>\<open>dualWriterMetrics\<close> are not under \<^verbatim>\<open>src/\<close>.
  Spec 4.2: "Two entry points: record-primary(failed, mode, kind, op, startTime),
  record-secondary(failed, mode, kind, op, startTime)", each recording one observation
  and never failing. The start time is left out.
\<close>

definition recordLegacyDuration :: "bool \<Rightarrow> string \<Rightarrow> string \<Rightarrow> string \<Rightarrow> state \<Rightarrow> state" where
  "recordLegacyDuration failed mode kind method s = emit (LegacyDuration failed mode kind method) s"

definition recordStorageDuration :: "bool \<Rightarrow> string \<Rightarrow> string \<Rightarrow> string \<Rightarrow> state \<Rightarrow> state" where
  "recordStorageDuration failed mode kind method s =
     emit (StorageDuration failed mode kind method) s"

subsection \<open>The resource accessor\<close>

definition errNotObject :: error where
  "errNotObject = Error ''object does not implement the Object interfaces''"

text \<open>
  Modelled from the spec: \<^verbatim>\<open>meta.Accessor\<close> (package \<^verbatim>\<open>k8s.io/apimachinery\<close>) is not
  under \<^verbatim>\<open>src/\<close>. Spec 6: "accessorFor(object) -> {getUID, setUID, getVersionToken,
  setVersionToken, getLabels, setLabels, ...}, error-if-not-accessible". The accessor of an
  object is a view on that same object: what is set through it is set on the object, which
  is how the source uses it (it sets fields through \<^verbatim>\<open>accessor\<close> and then passes
  \<^verbatim>\<open>res\<close>). On failure the accessor is nil.
\<close>

definition Accessor :: "heap \<Rightarrow> ref \<Rightarrow> ref \<times> error option" where
  "Accessor h obj =
     (case obj of
        Null \<Rightarrow> (Null, Some errNotObject)
      | Ref a \<Rightarrow> (case meta (h a) of
                   None \<Rightarrow> (Null, Some errNotObject)
                 | Some m \<Rightarrow> (Ref a, None)))"

text \<open>
  Modelled from the spec: the methods of the accessor (\<^verbatim>\<open>metav1.Object\<close>, not under
  \<^verbatim>\<open>src/\<close>). Spec 2: the accessor "exposes/mutates identity fields (unique ID, version
  token, labels/annotations)". A getter reads a field of the object behind the accessor and
  a setter writes it. They are called on accessors that \<open>Accessor\<close> returned, so on
  objects that have metadata.
\<close>

definition metaOf :: "heap \<Rightarrow> addr \<Rightarrow> objectMeta" where
  "metaOf h a = (case meta (h a) of Some m \<Rightarrow> m
     | None \<Rightarrow> \<lparr>uid = [], resourceVersion = [], labels = Map.empty, annotations = Map.empty\<rparr>)"

definition updMeta :: "addr \<Rightarrow> (objectMeta \<Rightarrow> objectMeta) \<Rightarrow> state \<Rightarrow> state" where
  "updMeta a f s = s\<lparr>heap := (heap s)(a := (heap s a)\<lparr>meta := map_option f (meta (heap s a))\<rparr>)\<rparr>"

definition GetResourceVersion :: "addr \<Rightarrow> state \<Rightarrow> string" where
  "GetResourceVersion a s = resourceVersion (metaOf (heap s) a)"

definition GetUID :: "addr \<Rightarrow> state \<Rightarrow> string" where
  "GetUID a s = uid (metaOf (heap s) a)"

definition SetResourceVersion :: "addr \<Rightarrow> string \<Rightarrow> state \<Rightarrow> state" where
  "SetResourceVersion a v s = updMeta a (\<lambda>m. m\<lparr>resourceVersion := v\<rparr>) s"

definition SetUID :: "addr \<Rightarrow> string \<Rightarrow> state \<Rightarrow> state" where
  "SetUID a v s = updMeta a (\<lambda>m. m\<lparr>uid := v\<rparr>) s"

text \<open>
  The identity an object carries: its UID and its resource version, if its type exposes
  identity metadata at all.
\<close>

definition identityOf :: "heap \<Rightarrow> ref \<Rightarrow> (string \<times> string) option" where
  "identityOf h r =
     (case r of Null \<Rightarrow> None
      | Ref a \<Rightarrow> map_option (\<lambda>m. (uid m, resourceVersion m)) (meta (h a)))"

text \<open>
  Modelled from the spec: the function \<^verbatim>\<open>enrichObject\<close> is not under \<^verbatim>\<open>src/\<close>.
  Spec 4.1: "given source (authoritative identity owner) and target (about to be
  persisted into the secondary store), copy uniqueID and versionToken from source onto
  target; additionally copy forward any labels/annotations the secondary write would
  otherwise be missing, without overwriting fields explicitly set by the caller on target".
  Create "reconciles identity from the created primary result onto the original input
  object" by the call \<^verbatim>\<open>enrichObject(accessorOld, accessorCreated)\<close>, so the first
  argument is the target and the second the source. Spec 7: an accessor failure "degrades
  identity reconciliation to a no-op".
\<close>

definition enrichObject :: "ref \<Rightarrow> ref \<Rightarrow> state \<Rightarrow> state" where
  "enrichObject accessorO accessorC s =
     (case (accessorO, accessorC) of
        (Ref target, Ref source) \<Rightarrow>
          (let src = metaOf (heap s) source
           in updMeta target (\<lambda>m. m\<lparr>uid := uid src, resourceVersion := resourceVersion src,
                labels := labels src ++ labels m,
                annotations := annotations src ++ annotations m\<rparr>) s)
      | _ \<Rightarrow> s)"

subsection \<open>Calls into a store\<close>

definition callCreate :: "backend \<Rightarrow> storage \<Rightarrow> ref \<Rightarrow> validateObjectFunc \<Rightarrow> options \<Rightarrow> state
    \<Rightarrow> (ref \<times> error option) \<times> state" where
  "callCreate b st obj createValidation opts s =
     (let (r, h) = sCreate st (heap s) obj createValidation opts
      in (r, emit (Called b ''Create'') (s\<lparr>heap := h\<rparr>)))"

definition callGet :: "backend \<Rightarrow> storage \<Rightarrow> string \<Rightarrow> options \<Rightarrow> state
    \<Rightarrow> (ref \<times> error option) \<times> state" where
  "callGet b st name opts s =
     (let (r, h) = sGet st (heap s) name opts
      in (r, emit (Called b ''Get'') (s\<lparr>heap := h\<rparr>)))"

definition callList :: "backend \<Rightarrow> storage \<Rightarrow> options \<Rightarrow> state \<Rightarrow> (ref \<times> error option) \<times> state" where
  "callList b st opts s =
     (let (r, h) = sList st (heap s) opts
      in (r, emit (Called b ''List'') (s\<lparr>heap := h\<rparr>)))"

definition callDelete :: "backend \<Rightarrow> storage \<Rightarrow> string \<Rightarrow> validateObjectFunc \<Rightarrow> options \<Rightarrow> state
    \<Rightarrow> (ref \<times> bool \<times> error option) \<times> state" where
  "callDelete b st name deleteValidation opts s =
     (let (r, h) = sDelete st (heap s) name deleteValidation opts
      in (r, emit (Called b ''Delete'') (s\<lparr>heap := h\<rparr>)))"

definition callDeleteCollection :: "backend \<Rightarrow> storage \<Rightarrow> validateObjectFunc \<Rightarrow> options \<Rightarrow> options
    \<Rightarrow> state \<Rightarrow> (ref \<times> error option) \<times> state" where
  "callDeleteCollection b st deleteValidation opts listOptions s =
     (let (r, h) = sDeleteCollection st (heap s) deleteValidation opts listOptions
      in (r, emit (Called b ''DeleteCollection'') (s\<lparr>heap := h\<rparr>)))"

definition callUpdate :: "backend \<Rightarrow> storage \<Rightarrow> string \<Rightarrow> updatedObjectInfo \<Rightarrow> validateObjectFunc
    \<Rightarrow> validateObjectUpdateFunc \<Rightarrow> bool \<Rightarrow> options \<Rightarrow> state
    \<Rightarrow> (ref \<times> bool \<times> error option) \<times> state" where
  "callUpdate b st name objInfo createValidation updateValidation forceAllowCreate opts s =
     (let (r, h) = sUpdate st (heap s) name objInfo createValidation updateValidation
                     forceAllowCreate opts
      in (r, emit (Called b ''Update'') (s\<lparr>heap := h\<rparr>)))"

definition callDestroy :: "backend \<Rightarrow> storage \<Rightarrow> state \<Rightarrow> state" where
  "callDestroy b st s = emit (Destroyed b) (s\<lparr>heap := sDestroy st (heap s)\<rparr>)"

text \<open>The call \<^verbatim>\<open>objInfo.UpdatedObject(ctx, res)\<close>.\<close>

definition callUpdatedObject :: "updatedObjectInfo \<Rightarrow> ref \<Rightarrow> state \<Rightarrow> (ref \<times> error option) \<times> state" where
  "callUpdatedObject objInfo cur s =
     (let (r, h) = UpdatedObject objInfo (heap s) cur
      in (r, emit (UpdatedObjectCalled cur) (s\<lparr>heap := h\<rparr>)))"

subsection \<open>The methods of DualWriterMode1\<close>

text \<open>
  \<open>mode\<close> is the package variable \<^verbatim>\<open>mode = strconv.Itoa(int(Mode1))\<close>; the constant
  \<^verbatim>\<open>Mode1\<close> is declared outside \<^verbatim>\<open>src/\<close>, so every method takes the string as a
  parameter.
\<close>

definition Create :: "string \<Rightarrow> DualWriterMode1 \<Rightarrow> ref \<Rightarrow> validateObjectFunc \<Rightarrow> options \<Rightarrow> state
    \<Rightarrow> (ref \<times> error option) outcome \<times> state" where
  "Create mode d obj createValidation opts s0 =
     (let method = ''create'';
          ((res, err), s1) = callCreate LegacyBackend (Legacy d) obj createValidation opts s0
      in case err of
           Some e \<Rightarrow>
             (let s2 = logError e ''unable to create object in legacy storage'' s1;
                  s3 = recordLegacyDuration True mode (Kind opts) method s2
              in (Returned (res, err), s3))
         | None \<Rightarrow>
             (let s2 = recordLegacyDuration False mode (Kind opts) method s1;
                  (accessorCreated, err) = Accessor (heap s2) res;
                  s3 = logIfError err ''unable to get accessor for created object'' s2;
                  (accessorOld, err) = Accessor (heap s3) obj;
                  s4 = logIfError err ''unable to get accessor for old object'' s3;
                  s5 = enrichObject accessorOld accessorCreated s4;
                  s6 = go (StorageCreateTask obj createValidation opts) s5
              in (Returned (res, err), s6)))"

definition Get :: "string \<Rightarrow> DualWriterMode1 \<Rightarrow> string \<Rightarrow> options \<Rightarrow> state
    \<Rightarrow> (ref \<times> error option) outcome \<times> state" where
  "Get mode d name opts s0 =
     (let method = ''get'';
          ((res, err), s1) = callGet LegacyBackend (Legacy d) name opts s0
      in case err of
           Some e \<Rightarrow>
             (let s2 = logError e ''unable to get object in legacy storage'' s1;
                  s3 = recordLegacyDuration True mode name method s2
              in (Returned (res, err), s3))
         | None \<Rightarrow>
             (let s2 = recordLegacyDuration False mode name method s1;
                  s3 = go (StorageGetTask name opts) s2
              in (Returned (res, err), s3)))"

definition List :: "string \<Rightarrow> DualWriterMode1 \<Rightarrow> options \<Rightarrow> state
    \<Rightarrow> (ref \<times> error option) outcome \<times> state" where
  "List mode d opts s0 =
     (let method = ''list'';
          ((res, err), s1) = callList LegacyBackend (Legacy d) opts s0
      in case err of
           Some e \<Rightarrow>
             (let s2 = logError e ''unable to list object in legacy storage'' s1;
                  s3 = recordLegacyDuration True mode (Kind opts) method s2
              in (Returned (res, err), s3))
         | None \<Rightarrow>
             (let s2 = recordLegacyDuration False mode (Kind opts) method s1;
                  s3 = go (StorageListTask opts) s2
              in (Returned (res, err), s3)))"

definition Delete :: "string \<Rightarrow> DualWriterMode1 \<Rightarrow> string \<Rightarrow> validateObjectFunc \<Rightarrow> options \<Rightarrow> state
    \<Rightarrow> (ref \<times> bool \<times> error option) outcome \<times> state" where
  "Delete mode d name deleteValidation opts s0 =
     (let method = ''delete'';
          ((res, async, err), s1) = callDelete LegacyBackend (Legacy d) name deleteValidation opts s0
      in case err of
           Some e \<Rightarrow>
             (let s2 = logError e ''unable to delete object in legacy storage'' s1;
                  s3 = recordLegacyDuration True mode name method s2
              in (Returned (res, async, err), s3))
         | None \<Rightarrow>
             (let s2 = recordLegacyDuration False mode name method s1;
                  s3 = go (StorageDeleteTask name deleteValidation opts) s2
              in (Returned (res, async, err), s3)))"

text \<open>
  In \<^verbatim>\<open>DeleteCollection\<close> and \<^verbatim>\<open>Update\<close> the error branch has no \<^verbatim>\<open>return\<close>:
  control falls through to the second \<^verbatim>\<open>recordLegacyDuration\<close> and to the rest of the
  method.
\<close>

definition DeleteCollection :: "string \<Rightarrow> DualWriterMode1 \<Rightarrow> validateObjectFunc \<Rightarrow> options \<Rightarrow> options
    \<Rightarrow> state \<Rightarrow> (ref \<times> error option) outcome \<times> state" where
  "DeleteCollection mode d deleteValidation opts listOptions s0 =
     (let method = ''delete-collection'';
          ((res, err), s1) =
             callDeleteCollection LegacyBackend (Legacy d) deleteValidation opts listOptions s0;
          s2 = (case err of
                  Some e \<Rightarrow>
                    recordLegacyDuration True mode (Kind opts) method
                      (logError e ''unable to delete collection in legacy storage'' s1)
                | None \<Rightarrow> s1);
          s3 = recordLegacyDuration False mode (Kind opts) method s2;
          s4 = go (StorageDeleteCollectionTask deleteValidation opts listOptions) s3
      in (Returned (res, err), s4))"

text \<open>\<^verbatim>\<open>&metav1.GetOptions{}\<close>\<close>

definition emptyOptions :: options where
  "emptyOptions = \<lparr>Kind = [], ResourceVersion = []\<rparr>"

text \<open>
  \<^verbatim>\<open>Update\<close>, first part (the source's lines 170 to 191): the primary update with its
  metric records, the resolution of the caller's directive against the primary result, and
  the fetch of the secondary store's copy. It yields \<^verbatim>\<open>res\<close>, \<^verbatim>\<open>async\<close>,
  \<^verbatim>\<open>errLegacy\<close> and \<^verbatim>\<open>old\<close>.
\<close>

definition UpdateFetch :: "string \<Rightarrow> DualWriterMode1 \<Rightarrow> string \<Rightarrow> updatedObjectInfo
    \<Rightarrow> validateObjectFunc \<Rightarrow> validateObjectUpdateFunc \<Rightarrow> bool \<Rightarrow> options \<Rightarrow> state
    \<Rightarrow> (ref \<times> bool \<times> error option \<times> ref) \<times> state" where
  "UpdateFetch mode d name objInfo createValidation updateValidation forceAllowCreate opts s0 =
     (let method = ''update'';
          ((res, async, errLegacy), s1) =
             callUpdate LegacyBackend (Legacy d) name objInfo createValidation updateValidation
               forceAllowCreate opts s0;
          s2 = (case errLegacy of
                  Some e \<Rightarrow>
                    recordLegacyDuration True mode name method
                      (logError e ''unable to update in legacy storage'' s1)
                | None \<Rightarrow> s1);
          s3 = recordLegacyDuration False mode name method s2;
          ((updated, err), s4) = callUpdatedObject objInfo res s3;
          s5 = logIfError err ''could not update or create object'' s4;
          ((old, err), s6) = callGet StorageBackend (Storage d) name emptyOptions s5;
          s7 = logIfError err ''could not get object to update'' s6
      in ((res, async, errLegacy, old), s7))"

text \<open>
  \<^verbatim>\<open>Update\<close>, whole. After the first part come the rewrapping of the directive (lines
  193 to 218), the launch of the mirror and the return. \<^verbatim>\<open>accessor\<close> and
  \<^verbatim>\<open>accessorOld\<close> are used without a nil check: a method call on a nil accessor
  panics.
\<close>

definition Update :: "string \<Rightarrow> DualWriterMode1 \<Rightarrow> string \<Rightarrow> updatedObjectInfo
    \<Rightarrow> validateObjectFunc \<Rightarrow> validateObjectUpdateFunc \<Rightarrow> bool \<Rightarrow> options \<Rightarrow> state
    \<Rightarrow> (ref \<times> bool \<times> error option) outcome \<times> state" where
  "Update mode d name objInfo createValidation updateValidation forceAllowCreate opts s0 =
     (let ((res, async, errLegacy, old), s7) =
             UpdateFetch mode d name objInfo createValidation updateValidation
               forceAllowCreate opts s0
      in if old \<noteq> Null then
           (let objInfo1 = UpdateWrapper objInfo old;
                (accessorOld, err) = Accessor (heap s7) old;
                s8 = logIfError err ''unable to get accessor for original updated object'' s7;
                (accessor, err) = Accessor (heap s8) res;
                s9 = logIfError err ''unable to get accessor for updated object'' s8
            in case (accessor, accessorOld) of
                 (Ref a, Ref ao) \<Rightarrow>
                   (let s10 = SetResourceVersion a (GetResourceVersion ao s9) s9;
                        s11 = SetUID a (GetUID ao s10) s10;
                        s12 = enrichObject accessorOld accessor s11;
                        objInfo2 = UpdateWrapper objInfo1 res;
                        s13 = go (StorageUpdateTask name objInfo2 createValidation
                                    updateValidation forceAllowCreate opts) s12
                    in (Returned (res, async, errLegacy), s13))
               | _ \<Rightarrow> (Panic, s9))
         else
           (let s8 = go (StorageUpdateTask name objInfo createValidation updateValidation
                           forceAllowCreate opts) s7
            in (Returned (res, async, errLegacy), s8)))"

definition Destroy :: "DualWriterMode1 \<Rightarrow> state \<Rightarrow> state" where
  "Destroy d s = callDestroy LegacyBackend (Legacy d) (callDestroy StorageBackend (Storage d) s)"

definition GetSingularName :: "DualWriterMode1 \<Rightarrow> string" where
  "GetSingularName d = sGetSingularName (Legacy d)"

definition NamespaceScoped :: "DualWriterMode1 \<Rightarrow> bool" where
  "NamespaceScoped d = sNamespaceScoped (Legacy d)"

definition New :: "DualWriterMode1 \<Rightarrow> heap \<Rightarrow> ref \<times> heap" where
  "New d h = sNew (Legacy d) h"

definition NewList :: "DualWriterMode1 \<Rightarrow> heap \<Rightarrow> ref \<times> heap" where
  "NewList d h = sNewList (Storage d) h"

definition ConvertToTable :: "DualWriterMode1 \<Rightarrow> heap \<Rightarrow> ref \<Rightarrow> ref \<Rightarrow> (ref \<times> error option) \<times> heap" where
  "ConvertToTable d h object tableOptions = sConvertToTable (Legacy d) h object tableOptions"

subsection \<open>The bodies of the goroutines\<close>

text \<open>
  Running a launched goroutine on a state: the call into the secondary store, then the
  deferred \<^verbatim>\<open>recordStorageDuration(err != nil, ...)\<close>. Its results are dropped.
\<close>

fun runTask :: "string \<Rightarrow> DualWriterMode1 \<Rightarrow> task \<Rightarrow> state \<Rightarrow> state" where
  "runTask mode d (StorageCreateTask obj createValidation opts) s =
     (let ((r, err), s1) = callCreate StorageBackend (Storage d) obj createValidation opts s
      in recordStorageDuration (err \<noteq> None) mode (Kind opts) ''create'' s1)"
| "runTask mode d (StorageGetTask name opts) s =
     (let ((r, err), s1) = callGet StorageBackend (Storage d) name opts s
      in recordStorageDuration (err \<noteq> None) mode name ''get'' s1)"
| "runTask mode d (StorageListTask opts) s =
     (let ((r, err), s1) = callList StorageBackend (Storage d) opts s
      in recordStorageDuration (err \<noteq> None) mode (Kind opts) ''list'' s1)"
| "runTask mode d (StorageDeleteTask name deleteValidation opts) s =
     (let ((r, async, err), s1) = callDelete StorageBackend (Storage d) name deleteValidation opts s
      in recordStorageDuration (err \<noteq> None) mode name ''delete'' s1)"
| "runTask mode d (StorageDeleteCollectionTask deleteValidation opts listOptions) s =
     (let ((r, err), s1) =
             callDeleteCollection StorageBackend (Storage d) deleteValidation opts listOptions s
      in recordStorageDuration (err \<noteq> None) mode (Kind opts) ''delete-collection'' s1)"
| "runTask mode d (StorageUpdateTask name objInfo createValidation updateValidation
      forceAllowCreate opts) s =
     (let ((r, async, err), s1) =
             callUpdate StorageBackend (Storage d) name objInfo createValidation updateValidation
               forceAllowCreate opts s
      in recordStorageDuration (err \<noteq> None) mode name ''update'' s1)"

subsection \<open>Concrete stores and objects\<close>

definition mkObject :: "string \<Rightarrow> string \<Rightarrow> string \<Rightarrow> runtimeObject" where
  "mkObject u v b =
     \<lparr>meta = Some \<lparr>uid = u, resourceVersion = v, labels = Map.empty, annotations = Map.empty\<rparr>,
      body = b\<rparr>"

definition opaqueObject :: "string \<Rightarrow> runtimeObject" where
  "opaqueObject b = \<lparr>meta = None, body = b\<rparr>"

text \<open>A store that answers every call with the object \<open>ob\<close>, placed at address \<open>a\<close>.\<close>

definition okStore :: "addr \<Rightarrow> runtimeObject \<Rightarrow> storage" where
  "okStore a ob =
     \<lparr>sCreate = (\<lambda>h obj v opts. ((Ref a, None), h(a := ob))),
      sGet = (\<lambda>h name opts. ((Ref a, None), h(a := ob))),
      sList = (\<lambda>h opts. ((Ref a, None), h(a := ob))),
      sDelete = (\<lambda>h name v opts. ((Ref a, False, None), h(a := ob))),
      sDeleteCollection = (\<lambda>h v opts lopts. ((Ref a, None), h(a := ob))),
      sUpdate = (\<lambda>h name objInfo cv uv force opts. ((Ref a, False, None), h(a := ob))),
      sGetSingularName = ''dashboard'',
      sNamespaceScoped = True,
      sNew = (\<lambda>h. (Ref a, h(a := ob))),
      sNewList = (\<lambda>h. (Ref a, h(a := ob))),
      sConvertToTable = (\<lambda>h object tableOptions. ((Ref a, None), h(a := ob))),
      sDestroy = (\<lambda>h. h)\<rparr>"

text \<open>A store that fails every call with the error \<open>e\<close> and returns nil.\<close>

definition downStore :: "error \<Rightarrow> storage" where
  "downStore e =
     \<lparr>sCreate = (\<lambda>h obj v opts. ((Null, Some e), h)),
      sGet = (\<lambda>h name opts. ((Null, Some e), h)),
      sList = (\<lambda>h opts. ((Null, Some e), h)),
      sDelete = (\<lambda>h name v opts. ((Null, False, Some e), h)),
      sDeleteCollection = (\<lambda>h v opts lopts. ((Null, Some e), h)),
      sUpdate = (\<lambda>h name objInfo cv uv force opts. ((Null, False, Some e), h)),
      sGetSingularName = ''dashboard'',
      sNamespaceScoped = True,
      sNew = (\<lambda>h. (Null, h)),
      sNewList = (\<lambda>h. (Null, h)),
      sConvertToTable = (\<lambda>h object tableOptions. ((Null, Some e), h)),
      sDestroy = (\<lambda>h. h)\<rparr>"

text \<open>
  The primary store assigns \<^verbatim>\<open>uid="u1", version="v1"\<close>; the secondary store holds its own
  copy with \<^verbatim>\<open>uid="u2", version="v2"\<close>. The caller's object is at address 0, without
  identity values.
\<close>

definition primaryStore :: storage where
  "primaryStore = okStore 1 (mkObject ''u1'' ''v1'' ''a'')"

definition secondaryStore :: storage where
  "secondaryStore = okStore 2 (mkObject ''u2'' ''v2'' ''a'')"

definition unreachable :: error where
  "unreachable = Error ''unreachable''"

definition heap0 :: heap where
  "heap0 = (\<lambda>a. opaqueObject [])(0 := mkObject [] [] ''a'')"

definition state0 :: state where
  "state0 = \<lparr>heap = heap0, trace = [], tasks = []\<rparr>"

text \<open>The same state with a caller's object that exposes no identity metadata.\<close>

definition stateOpaque :: state where
  "stateOpaque = \<lparr>heap = (\<lambda>a. opaqueObject ''a''), trace = [], tasks = []\<rparr>"

definition someOptions :: options where
  "someOptions = \<lparr>Kind = ''dashboard'', ResourceVersion = []\<rparr>"

text \<open>
  Four synchronizers: both stores up, the primary down, the secondary down, both down.
\<close>

definition bothUp :: DualWriterMode1 where
  "bothUp = \<lparr>Legacy = primaryStore, Storage = secondaryStore\<rparr>"

definition primaryDown :: DualWriterMode1 where
  "primaryDown = \<lparr>Legacy = downStore unreachable, Storage = secondaryStore\<rparr>"

definition secondaryDown :: DualWriterMode1 where
  "secondaryDown = \<lparr>Legacy = primaryStore, Storage = downStore unreachable\<rparr>"

definition bothDown :: DualWriterMode1 where
  "bothDown = \<lparr>Legacy = downStore unreachable, Storage = downStore unreachable\<rparr>"

text \<open>
  A synchronizer whose primary store answers with an object that exposes no identity
  metadata.
\<close>

definition opaquePrimary :: DualWriterMode1 where
  "opaquePrimary = \<lparr>Legacy = okStore 1 (opaqueObject ''a''), Storage = secondaryStore\<rparr>"

text \<open>A caller's directive that returns the current object as it is.\<close>

definition keepCurrent :: updatedObjectInfo where
  "keepCurrent = Directive (\<lambda>h cur. ((cur, None), h))"

text \<open>The calls the concrete statements below are about.\<close>

abbreviation exCreate :: "DualWriterMode1 \<Rightarrow> state \<Rightarrow> (ref \<times> error option) outcome \<times> state" where
  "exCreate d s \<equiv> Create ''1'' d (Ref 0) (ValidateObjectFunc 0) someOptions s"

abbreviation exDeleteCollection :: "DualWriterMode1 \<Rightarrow> (ref \<times> error option) outcome \<times> state" where
  "exDeleteCollection d \<equiv>
     DeleteCollection ''1'' d (ValidateObjectFunc 0) someOptions someOptions state0"

abbreviation exUpdateFetch :: "DualWriterMode1
    \<Rightarrow> (ref \<times> bool \<times> error option \<times> ref) \<times> state" where
  "exUpdateFetch d \<equiv>
     UpdateFetch ''1'' d ''x'' keepCurrent (ValidateObjectFunc 0) (ValidateObjectUpdateFunc 0)
       False someOptions state0"

abbreviation exUpdate :: "DualWriterMode1 \<Rightarrow> (ref \<times> bool \<times> error option) outcome \<times> state" where
  "exUpdate d \<equiv>
     Update ''1'' d ''x'' keepCurrent (ValidateObjectFunc 0) (ValidateObjectUpdateFunc 0)
       False someOptions state0"

text \<open>The events a call added to the trace.\<close>

definition eventsSince :: "state \<Rightarrow> state \<Rightarrow> event list" where
  "eventsSince s0 s = drop (length (trace s0)) (trace s)"

text \<open>The log line of \<^verbatim>\<open>if err != nil { log.Error(err, msg) }\<close>, if any.\<close>

definition logged :: "error option \<Rightarrow> string \<Rightarrow> event list" where
  "logged err msg = (case err of None \<Rightarrow> [] | Some e \<Rightarrow> [LogError e msg])"

text \<open>
  The events of the first part of Update, in the order the source produces them, given the
  primary result and the errors of the three calls: the primary Update, the resolution of
  the directive, and the Get on the secondary store.
\<close>

definition fetchEvents :: "string \<Rightarrow> string \<Rightarrow> ref \<Rightarrow> error option \<Rightarrow> error option \<Rightarrow> error option
    \<Rightarrow> event list" where
  "fetchEvents mode name res errLegacy errU errG =
     [Called LegacyBackend ''Update'']
     @ (case errLegacy of None \<Rightarrow> []
        | Some e \<Rightarrow> [LogError e ''unable to update in legacy storage'',
                     LegacyDuration True mode name ''update''])
     @ [LegacyDuration False mode name ''update'', UpdatedObjectCalled res]
     @ logged errU ''could not update or create object''
     @ [Called StorageBackend ''Get'']
     @ logged errG ''could not get object to update''"

fun isLegacyDuration :: "event \<Rightarrow> bool" where
  "isLegacyDuration (LegacyDuration failed mode kind method) = True"
| "isLegacyDuration e = False"

fun isStorageEvent :: "event \<Rightarrow> bool" where
  "isStorageEvent (Called StorageBackend method) = True"
| "isStorageEvent (StorageDuration failed mode kind method) = True"
| "isStorageEvent e = False"

section \<open>Properties\<close>

subsection \<open>State bookkeeping\<close>

lemma trace_emit: "trace (emit e s) = trace s @ [e]"
  by (simp add: emit_def)

lemma trace_go: "trace (go t s) = trace s"
  by (simp add: go_def)

subsection \<open>The failure branch of Create, Get, List and Delete\<close>

text \<open>
  When the primary call fails, the whole effect of the method is known: the heap the
  primary store left, three more events, no goroutine.
\<close>

lemma Create_failure_state:
  assumes "sCreate (Legacy d) (heap s0) obj cv opts = ((res, Some e), h)"
  shows "Create mode d obj cv opts s0 =
    (Returned (res, Some e),
     s0\<lparr>heap := h, trace := trace s0 @ [Called LegacyBackend ''Create'',
        LogError e ''unable to create object in legacy storage'',
        LegacyDuration True mode (Kind opts) ''create'']\<rparr>)"
  using assms
  by (simp add: Create_def callCreate_def logError_def recordLegacyDuration_def emit_def)

lemma Get_failure_state:
  assumes "sGet (Legacy d) (heap s0) name opts = ((res, Some e), h)"
  shows "Get mode d name opts s0 =
    (Returned (res, Some e),
     s0\<lparr>heap := h, trace := trace s0 @ [Called LegacyBackend ''Get'',
        LogError e ''unable to get object in legacy storage'',
        LegacyDuration True mode name ''get'']\<rparr>)"
  using assms
  by (simp add: Get_def callGet_def logError_def recordLegacyDuration_def emit_def)

lemma List_failure_state:
  assumes "sList (Legacy d) (heap s0) opts = ((res, Some e), h)"
  shows "List mode d opts s0 =
    (Returned (res, Some e),
     s0\<lparr>heap := h, trace := trace s0 @ [Called LegacyBackend ''List'',
        LogError e ''unable to list object in legacy storage'',
        LegacyDuration True mode (Kind opts) ''list'']\<rparr>)"
  using assms
  by (simp add: List_def callList_def logError_def recordLegacyDuration_def emit_def)

lemma Delete_failure_state:
  assumes "sDelete (Legacy d) (heap s0) name dv opts = ((res, async, Some e), h)"
  shows "Delete mode d name dv opts s0 =
    (Returned (res, async, Some e),
     s0\<lparr>heap := h, trace := trace s0 @ [Called LegacyBackend ''Delete'',
        LogError e ''unable to delete object in legacy storage'',
        LegacyDuration True mode name ''delete'']\<rparr>)"
  using assms
  by (simp add: Delete_def callDelete_def logError_def recordLegacyDuration_def emit_def)

text \<open>
  Claim C6. When the primary Create fails, Create returns the primary's result and error
  as they are, the events of the call hold exactly one primary-store metric record, with
  the failure flag set, no call into the secondary store and no secondary-store record,
  and no goroutine is launched.
\<close>

theorem Create_legacy_failure:
  assumes "sCreate (Legacy d) (heap s0) obj createValidation opts = ((res, Some e), h)"
  shows "fst (Create mode d obj createValidation opts s0) = Returned (res, Some e)
    \<and> filter isLegacyDuration (eventsSince s0 (snd (Create mode d obj createValidation opts s0)))
        = [LegacyDuration True mode (Kind opts) ''create'']
    \<and> filter isStorageEvent (eventsSince s0 (snd (Create mode d obj createValidation opts s0))) = []
    \<and> tasks (snd (Create mode d obj createValidation opts s0)) = tasks s0"
  by (simp add: Create_failure_state [OF assms] eventsSince_def)

theorem Create_legacy_failure_witness:
  "sCreate (Legacy primaryDown) (heap state0) (Ref 0) (ValidateObjectFunc 0) someOptions
      = ((Null, Some unreachable), heap0)
    \<and> fst (exCreate primaryDown state0)
      = Returned (Null, Some unreachable)
    \<and> filter isLegacyDuration
        (eventsSince state0
          (snd (exCreate primaryDown state0)))
      = [LegacyDuration True ''1'' ''dashboard'' ''create'']
    \<and> tasks (snd (exCreate primaryDown state0)) = []"
proof -
  have h: "sCreate (Legacy primaryDown) (heap state0) (Ref 0) (ValidateObjectFunc 0) someOptions
      = ((Null, Some unreachable), heap0)"
    by (simp add: primaryDown_def downStore_def state0_def)
  show ?thesis
    using h Create_legacy_failure [OF h, of "''1''"]
    by (simp add: state0_def someOptions_def)
qed

lemma Create_failure_quiet:
  assumes "snd (fst (sCreate (Legacy d) (heap s0) obj cv opts)) \<noteq> None"
  shows "fst (Create mode d obj cv opts s0) = Returned (fst (sCreate (Legacy d) (heap s0) obj cv opts))
    \<and> tasks (snd (Create mode d obj cv opts s0)) = tasks s0
    \<and> filter isStorageEvent (eventsSince s0 (snd (Create mode d obj cv opts s0))) = []"
proof -
  obtain res e h where "sCreate (Legacy d) (heap s0) obj cv opts = ((res, Some e), h)"
    using assms by (cases "sCreate (Legacy d) (heap s0) obj cv opts") auto
  then show ?thesis
    by (simp add: Create_failure_state eventsSince_def)
qed

lemma Get_failure_quiet:
  assumes "snd (fst (sGet (Legacy d) (heap s0) name opts)) \<noteq> None"
  shows "fst (Get mode d name opts s0) = Returned (fst (sGet (Legacy d) (heap s0) name opts))
    \<and> tasks (snd (Get mode d name opts s0)) = tasks s0
    \<and> filter isStorageEvent (eventsSince s0 (snd (Get mode d name opts s0))) = []"
proof -
  obtain res e h where "sGet (Legacy d) (heap s0) name opts = ((res, Some e), h)"
    using assms by (cases "sGet (Legacy d) (heap s0) name opts") auto
  then show ?thesis
    by (simp add: Get_failure_state eventsSince_def)
qed

lemma List_failure_quiet:
  assumes "snd (fst (sList (Legacy d) (heap s0) opts)) \<noteq> None"
  shows "fst (List mode d opts s0) = Returned (fst (sList (Legacy d) (heap s0) opts))
    \<and> tasks (snd (List mode d opts s0)) = tasks s0
    \<and> filter isStorageEvent (eventsSince s0 (snd (List mode d opts s0))) = []"
proof -
  obtain res e h where "sList (Legacy d) (heap s0) opts = ((res, Some e), h)"
    using assms by (cases "sList (Legacy d) (heap s0) opts") auto
  then show ?thesis
    by (simp add: List_failure_state eventsSince_def)
qed

lemma Delete_failure_quiet:
  assumes "snd (snd (fst (sDelete (Legacy d) (heap s0) name dv opts))) \<noteq> None"
  shows "fst (Delete mode d name dv opts s0) = Returned (fst (sDelete (Legacy d) (heap s0) name dv opts))
    \<and> tasks (snd (Delete mode d name dv opts s0)) = tasks s0
    \<and> filter isStorageEvent (eventsSince s0 (snd (Delete mode d name dv opts s0))) = []"
proof -
  obtain res async e h where "sDelete (Legacy d) (heap s0) name dv opts = ((res, async, Some e), h)"
    using assms by (cases "sDelete (Legacy d) (heap s0) name dv opts") auto
  then show ?thesis
    by (simp add: Delete_failure_state eventsSince_def)
qed

text \<open>
  Claim C9. When the primary call of Create, Get, List or Delete returns an error, the
  method returns the primary's results as they are, launches no goroutine, and the events
  of the call hold neither a call into the secondary store nor a secondary-store metric
  record.
\<close>

theorem primary_failure_no_secondary:
  "(snd (fst (sCreate (Legacy d) (heap s0) obj cv opts)) \<noteq> None \<longrightarrow>
      fst (Create mode d obj cv opts s0) = Returned (fst (sCreate (Legacy d) (heap s0) obj cv opts))
      \<and> tasks (snd (Create mode d obj cv opts s0)) = tasks s0
      \<and> filter isStorageEvent (eventsSince s0 (snd (Create mode d obj cv opts s0))) = [])
   \<and> (snd (fst (sGet (Legacy d) (heap s0) name opts)) \<noteq> None \<longrightarrow>
      fst (Get mode d name opts s0) = Returned (fst (sGet (Legacy d) (heap s0) name opts))
      \<and> tasks (snd (Get mode d name opts s0)) = tasks s0
      \<and> filter isStorageEvent (eventsSince s0 (snd (Get mode d name opts s0))) = [])
   \<and> (snd (fst (sList (Legacy d) (heap s0) opts)) \<noteq> None \<longrightarrow>
      fst (List mode d opts s0) = Returned (fst (sList (Legacy d) (heap s0) opts))
      \<and> tasks (snd (List mode d opts s0)) = tasks s0
      \<and> filter isStorageEvent (eventsSince s0 (snd (List mode d opts s0))) = [])
   \<and> (snd (snd (fst (sDelete (Legacy d) (heap s0) name dv opts))) \<noteq> None \<longrightarrow>
      fst (Delete mode d name dv opts s0) = Returned (fst (sDelete (Legacy d) (heap s0) name dv opts))
      \<and> tasks (snd (Delete mode d name dv opts s0)) = tasks s0
      \<and> filter isStorageEvent (eventsSince s0 (snd (Delete mode d name dv opts s0))) = [])"
  by (simp add: Create_failure_quiet Get_failure_quiet List_failure_quiet Delete_failure_quiet)

theorem primary_failure_no_secondary_witness:
  "snd (fst (sCreate (Legacy primaryDown) (heap state0) (Ref 0) (ValidateObjectFunc 0) someOptions)) \<noteq> None
   \<and> snd (fst (sGet (Legacy primaryDown) (heap state0) ''x'' someOptions)) \<noteq> None
   \<and> snd (fst (sList (Legacy primaryDown) (heap state0) someOptions)) \<noteq> None
   \<and> snd (snd (fst (sDelete (Legacy primaryDown) (heap state0) ''x'' (ValidateObjectFunc 0) someOptions))) \<noteq> None
   \<and> fst (exCreate primaryDown state0) = Returned (Null, Some unreachable)
   \<and> tasks (snd (exCreate primaryDown state0)) = []
   \<and> fst (Get ''1'' primaryDown ''x'' someOptions state0) = Returned (Null, Some unreachable)
   \<and> tasks (snd (Get ''1'' primaryDown ''x'' someOptions state0)) = []
   \<and> fst (List ''1'' primaryDown someOptions state0) = Returned (Null, Some unreachable)
   \<and> tasks (snd (List ''1'' primaryDown someOptions state0)) = []
   \<and> fst (Delete ''1'' primaryDown ''x'' (ValidateObjectFunc 0) someOptions state0) = Returned (Null, False, Some unreachable)
   \<and> tasks (snd (Delete ''1'' primaryDown ''x'' (ValidateObjectFunc 0) someOptions state0)) = []"
proof -
  have h: "snd (fst (sCreate (Legacy primaryDown) (heap state0) (Ref 0) (ValidateObjectFunc 0) someOptions)) \<noteq> None"
    "snd (fst (sGet (Legacy primaryDown) (heap state0) ''x'' someOptions)) \<noteq> None"
    "snd (fst (sList (Legacy primaryDown) (heap state0) someOptions)) \<noteq> None"
    "snd (snd (fst (sDelete (Legacy primaryDown) (heap state0) ''x'' (ValidateObjectFunc 0) someOptions))) \<noteq> None"
    by (simp_all add: primaryDown_def downStore_def)
  show ?thesis
    using h primary_failure_no_secondary [of primaryDown state0 "Ref 0" "ValidateObjectFunc 0"
        someOptions "''1''" "''x''" "ValidateObjectFunc 0"]
    by (simp add: primaryDown_def downStore_def state0_def)
qed

subsection \<open>Passthrough operations\<close>

text \<open>
  Claim C8. GetSingularName, NamespaceScoped, New and ConvertToTable return what the
  primary store returns for the same arguments, whatever the secondary store is; NewList
  returns what the secondary store's NewList returns; Destroy destroys the secondary store
  and then the primary store.
\<close>

theorem passthrough_delegation:
  "GetSingularName \<lparr>Legacy = L, Storage = S\<rparr> = sGetSingularName L
   \<and> NamespaceScoped \<lparr>Legacy = L, Storage = S\<rparr> = sNamespaceScoped L
   \<and> New \<lparr>Legacy = L, Storage = S\<rparr> h = sNew L h
   \<and> ConvertToTable \<lparr>Legacy = L, Storage = S\<rparr> h object tableOptions
        = sConvertToTable L h object tableOptions
   \<and> NewList \<lparr>Legacy = L, Storage = S\<rparr> h = sNewList S h
   \<and> eventsSince s (Destroy \<lparr>Legacy = L, Storage = S\<rparr> s)
        = [Destroyed StorageBackend, Destroyed LegacyBackend]
   \<and> heap (Destroy \<lparr>Legacy = L, Storage = S\<rparr> s) = sDestroy L (sDestroy S (heap s))"
  by (simp add: GetSingularName_def NamespaceScoped_def New_def ConvertToTable_def NewList_def
      Destroy_def callDestroy_def emit_def eventsSince_def)

subsection \<open>Update, step by step\<close>

lemmas step_defs = callUpdate_def callUpdatedObject_def callGet_def logIfError_def logError_def
  recordLegacyDuration_def emit_def go_def

text \<open>The first part of Update, given what the three calls it makes return.\<close>

lemma UpdateFetch_eq:
  assumes "sUpdate (Legacy d) (heap s0) name objInfo cv uv force opts = ((res, async, errLegacy), h1)"
    and "UpdatedObject objInfo h1 res = ((updated, err1), h2)"
    and "sGet (Storage d) h2 name emptyOptions = ((old, err2), h3)"
  shows "UpdateFetch mode d name objInfo cv uv force opts s0 =
    ((res, async, errLegacy, old),
     s0\<lparr>heap := h3,
        trace := trace s0 @ [Called LegacyBackend ''Update'']
          @ (case errLegacy of None \<Rightarrow> []
             | Some e \<Rightarrow> [LogError e ''unable to update in legacy storage'',
                          LegacyDuration True mode name ''update''])
          @ [LegacyDuration False mode name ''update'', UpdatedObjectCalled res]
          @ logged err1 ''could not update or create object''
          @ [Called StorageBackend ''Get'']
          @ logged err2 ''could not get object to update''\<rparr>)"
  using assms
  by (simp add: UpdateFetch_def step_defs logged_def Let_def split: option.splits)

lemma UpdateFetch_cases:
  obtains res async errLegacy h1 updated err1 h2 old err2 h3 where
    "sUpdate (Legacy d) (heap s0) name objInfo cv uv force opts = ((res, async, errLegacy), h1)"
    "UpdatedObject objInfo h1 res = ((updated, err1), h2)"
    "sGet (Storage d) h2 name emptyOptions = ((old, err2), h3)"
proof -
  obtain res async errLegacy h1 where
    a: "sUpdate (Legacy d) (heap s0) name objInfo cv uv force opts = ((res, async, errLegacy), h1)"
    by (metis prod.exhaust)
  obtain updated err1 h2 where b: "UpdatedObject objInfo h1 res = ((updated, err1), h2)"
    by (metis prod.exhaust)
  obtain old err2 h3 where c: "sGet (Storage d) h2 name emptyOptions = ((old, err2), h3)"
    by (metis prod.exhaust)
  from a b c that show thesis by blast
qed

lemma UpdateFetch_tasks:
  "tasks (snd (UpdateFetch mode d name objInfo cv uv force opts s0)) = tasks s0"
  by (rule UpdateFetch_cases [of d s0 name objInfo cv uv force opts])
     (simp add: UpdateFetch_eq)

lemma UpdateFetch_events:
  "subseq [UpdatedObjectCalled (fst (fst (sUpdate (Legacy d) (heap s0) name objInfo cv uv force opts))),
           Called StorageBackend ''Get'']
     (eventsSince s0 (snd (UpdateFetch mode d name objInfo cv uv force opts s0)))"
  by (rule UpdateFetch_cases [of d s0 name objInfo cv uv force opts])
     (simp add: UpdateFetch_eq eventsSince_def logged_def split: option.splits)

text \<open>The three ways Update goes on after the fetch.\<close>

lemma Update_not_found:
  assumes "UpdateFetch mode d name objInfo cv uv force opts s0 = ((res, async, errLegacy, Null), s7)"
  shows "Update mode d name objInfo cv uv force opts s0 =
    (Returned (res, async, errLegacy),
     s7\<lparr>tasks := tasks s7 @ [StorageUpdateTask name objInfo cv uv force opts]\<rparr>)"
  using assms by (simp add: Update_def go_def)

lemma Update_found:
  assumes "UpdateFetch mode d name objInfo cv uv force opts s0
             = ((Ref a, async, errLegacy, Ref ao), s7)"
    and "meta (heap s7 a) = Some m" and "meta (heap s7 ao) = Some mo"
  shows "fst (Update mode d name objInfo cv uv force opts s0) = Returned (Ref a, async, errLegacy)"
    and "tasks (snd (Update mode d name objInfo cv uv force opts s0)) =
          tasks s7 @ [StorageUpdateTask name
            (UpdateWrapper (UpdateWrapper objInfo (Ref ao)) (Ref a)) cv uv force opts]"
    and "trace (snd (Update mode d name objInfo cv uv force opts s0)) = trace s7"
    and "uid (metaOf (heap (snd (Update mode d name objInfo cv uv force opts s0))) a) = uid mo"
    and "resourceVersion (metaOf (heap (snd (Update mode d name objInfo cv uv force opts s0))) a)
           = resourceVersion mo"
    and "uid (metaOf (heap (snd (Update mode d name objInfo cv uv force opts s0))) ao) = uid mo"
    and "resourceVersion (metaOf (heap (snd (Update mode d name objInfo cv uv force opts s0))) ao)
           = resourceVersion mo"
  using assms
  by (auto simp: Update_def Accessor_def logIfError_def Let_def GetResourceVersion_def
      GetUID_def metaOf_def go_def enrichObject_def SetUID_def SetResourceVersion_def updMeta_def)

lemma Update_panics:
  assumes "UpdateFetch mode d name objInfo cv uv force opts s0 = ((res, async, errLegacy, old), s7)"
    and "old \<noteq> Null"
    and "fst (Accessor (heap s7) res) = Null \<or> fst (Accessor (heap s7) old) = Null"
  shows "fst (Update mode d name objInfo cv uv force opts s0) = Panic"
    and "tasks (snd (Update mode d name objInfo cv uv force opts s0)) = tasks s7"
    and "prefix (trace s7) (trace (snd (Update mode d name objInfo cv uv force opts s0)))"
  using assms
  by (auto simp: Update_def Accessor_def logIfError_def logError_def emit_def Let_def
      split: ref.splits option.splits)

lemma Update_trace_extends:
  "prefix (trace (snd (UpdateFetch mode d name objInfo cv uv force opts s0)))
          (trace (snd (Update mode d name objInfo cv uv force opts s0)))"
proof -
  obtain res async errLegacy old s7 where
    f: "UpdateFetch mode d name objInfo cv uv force opts s0 = ((res, async, errLegacy, old), s7)"
    by (metis prod.exhaust)
  show ?thesis
  proof (cases "old = Null")
    case True
    with f show ?thesis by (simp add: Update_not_found)
  next
    case False
    show ?thesis
    proof (cases "fst (Accessor (heap s7) res) = Null \<or> fst (Accessor (heap s7) old) = Null")
      case True
      with f False show ?thesis by (simp add: Update_panics(3))
    next
      case False
      then obtain a ao m mo where "res = Ref a" "old = Ref ao" "meta (heap s7 a) = Some m"
        "meta (heap s7 ao) = Some mo"
        by (auto simp: Accessor_def split: ref.splits option.splits)
      with f show ?thesis by (simp add: Update_found(3))
    qed
  qed
qed

subsection \<open>One primary-store record per call\<close>

text \<open>
  Create, Get, List and Delete record the duration of the primary call once, and the flag
  of the record says whether the primary call failed.
\<close>

lemma trace_enrichObject: "trace (enrichObject accessorO accessorC s) = trace s"
  by (simp add: enrichObject_def updMeta_def Let_def split: ref.splits)

lemma trace_logIfError: "trace (logIfError err msg s) = trace s @ logged err msg"
  by (simp add: logIfError_def logError_def emit_def logged_def split: option.splits)

lemma trace_recordLegacyDuration:
  "trace (recordLegacyDuration failed mode kind method s)
     = trace s @ [LegacyDuration failed mode kind method]"
  by (simp add: recordLegacyDuration_def emit_def)

lemma filter_logged: "filter isLegacyDuration (logged err msg) = []"
  by (simp add: logged_def split: option.splits)

lemma Create_records_once:
  "filter isLegacyDuration (eventsSince s0 (snd (Create mode d obj cv opts s0)))
     = [LegacyDuration (snd (fst (sCreate (Legacy d) (heap s0) obj cv opts)) \<noteq> None) mode
          (Kind opts) ''create'']"
proof -
  obtain res err h where c: "sCreate (Legacy d) (heap s0) obj cv opts = ((res, err), h)"
    by (metis prod.exhaust)
  show ?thesis
  proof (cases err)
    case (Some e)
    with c show ?thesis by (simp add: Create_failure_state eventsSince_def)
  next
    case None
    with c show ?thesis
      by (simp add: Create_def callCreate_def eventsSince_def Let_def trace_go
          trace_enrichObject trace_logIfError trace_recordLegacyDuration trace_emit filter_logged
          split: prod.splits)
  qed
qed

lemma Get_records_once:
  "filter isLegacyDuration (eventsSince s0 (snd (Get mode d name opts s0)))
     = [LegacyDuration (snd (fst (sGet (Legacy d) (heap s0) name opts)) \<noteq> None) mode name ''get'']"
proof -
  obtain res err h where c: "sGet (Legacy d) (heap s0) name opts = ((res, err), h)"
    by (metis prod.exhaust)
  show ?thesis
  proof (cases err)
    case (Some e)
    with c show ?thesis by (simp add: Get_failure_state eventsSince_def)
  next
    case None
    with c show ?thesis
      by (simp add: Get_def callGet_def eventsSince_def Let_def trace_go
          trace_recordLegacyDuration trace_emit)
  qed
qed

lemma List_records_once:
  "filter isLegacyDuration (eventsSince s0 (snd (List mode d opts s0)))
     = [LegacyDuration (snd (fst (sList (Legacy d) (heap s0) opts)) \<noteq> None) mode (Kind opts)
          ''list'']"
proof -
  obtain res err h where c: "sList (Legacy d) (heap s0) opts = ((res, err), h)"
    by (metis prod.exhaust)
  show ?thesis
  proof (cases err)
    case (Some e)
    with c show ?thesis by (simp add: List_failure_state eventsSince_def)
  next
    case None
    with c show ?thesis
      by (simp add: List_def callList_def eventsSince_def Let_def trace_go
          trace_recordLegacyDuration trace_emit)
  qed
qed

lemma Delete_records_once:
  "filter isLegacyDuration (eventsSince s0 (snd (Delete mode d name dv opts s0)))
     = [LegacyDuration (snd (snd (fst (sDelete (Legacy d) (heap s0) name dv opts))) \<noteq> None) mode
          name ''delete'']"
proof -
  obtain res async err h where c: "sDelete (Legacy d) (heap s0) name dv opts = ((res, async, err), h)"
    by (metis prod.exhaust)
  show ?thesis
  proof (cases err)
    case (Some e)
    with c show ?thesis by (simp add: Delete_failure_state eventsSince_def)
  next
    case None
    with c show ?thesis
      by (simp add: Delete_def callDelete_def eventsSince_def Let_def trace_go
          trace_recordLegacyDuration trace_emit)
  qed
qed

lemmas example_defs = bothUp_def primaryDown_def secondaryDown_def bothDown_def opaquePrimary_def
  primaryStore_def
  secondaryStore_def okStore_def downStore_def state0_def stateOpaque_def heap0_def mkObject_def
  opaqueObject_def someOptions_def

lemmas run_defs = Update_def UpdateFetch_def Create_def DeleteCollection_def callCreate_def
  callDeleteCollection_def step_defs Accessor_def GetResourceVersion_def GetUID_def
  SetResourceVersion_def SetUID_def updMeta_def metaOf_def enrichObject_def keepCurrent_def
  emptyOptions_def eventsSince_def identityOf_def unreachable_def errNotObject_def Let_def

text \<open>
  Claim C5. Every call finalizes exactly one primary-store duration record, whose flag
  matches the outcome of the primary call. DeleteCollection and Update do otherwise when
  the primary call fails: with the primary store down, the events of one DeleteCollection
  call, and of one Update call, hold two primary-store records, the first flagged as a
  failure and the second as a success.
\<close>

theorem failed_primary_recorded_twice:
  "filter isLegacyDuration (eventsSince state0 (snd (exDeleteCollection primaryDown)))
       = [LegacyDuration True ''1'' ''dashboard'' ''delete-collection'',
          LegacyDuration False ''1'' ''dashboard'' ''delete-collection'']
   \<and> filter isLegacyDuration (eventsSince state0 (snd (exUpdate bothDown)))
       = [LegacyDuration True ''1'' ''x'' ''update'',
          LegacyDuration False ''1'' ''x'' ''update'']"
  by (simp add: run_defs example_defs)

subsection \<open>A failed primary DeleteCollection or Update\<close>

text \<open>
  Claim C3. When the primary store returns an error, Update and DeleteCollection abort:
  the error goes to the caller, no mirror call is issued and no further work is done. The
  code returns the primary's error but does not abort: with the primary store down,
  DeleteCollection launches the mirror goroutine, and Update (the secondary store being
  down too) resolves the directive, reads from the secondary store and launches the
  mirror goroutine.
\<close>

theorem failed_primary_still_mirrors:
  "fst (exDeleteCollection primaryDown) = Returned (Null, Some unreachable)
   \<and> tasks (snd (exDeleteCollection primaryDown))
       = [StorageDeleteCollectionTask (ValidateObjectFunc 0) someOptions someOptions]
   \<and> fst (exUpdate bothDown) = Returned (Null, False, Some unreachable)
   \<and> tasks (snd (exUpdate bothDown))
       = [StorageUpdateTask ''x'' keepCurrent (ValidateObjectFunc 0) (ValidateObjectUpdateFunc 0)
            False someOptions]
   \<and> eventsSince state0 (snd (exUpdate bothDown))
       = [Called LegacyBackend ''Update'',
          LogError unreachable ''unable to update in legacy storage'',
          LegacyDuration True ''1'' ''x'' ''update'',
          LegacyDuration False ''1'' ''x'' ''update'',
          UpdatedObjectCalled Null,
          Called StorageBackend ''Get'',
          LogError unreachable ''could not get object to update'']"
  by (simp add: run_defs example_defs)

subsection \<open>What the caller gets and the secondary store\<close>

text \<open>
  Create, Get, List, Delete and DeleteCollection do not depend on the secondary store at
  all: outcome, heap, events and launched goroutines are the same for any two secondary
  stores. Update returns the primary's three results whenever it returns.
\<close>

lemma other_methods_ignore_secondary:
  "Create mode \<lparr>Legacy = L, Storage = S1\<rparr> obj cv opts s
     = Create mode \<lparr>Legacy = L, Storage = S2\<rparr> obj cv opts s"
  "Get mode \<lparr>Legacy = L, Storage = S1\<rparr> name opts s
     = Get mode \<lparr>Legacy = L, Storage = S2\<rparr> name opts s"
  "List mode \<lparr>Legacy = L, Storage = S1\<rparr> opts s
     = List mode \<lparr>Legacy = L, Storage = S2\<rparr> opts s"
  "Delete mode \<lparr>Legacy = L, Storage = S1\<rparr> name dv opts s
     = Delete mode \<lparr>Legacy = L, Storage = S2\<rparr> name dv opts s"
  "DeleteCollection mode \<lparr>Legacy = L, Storage = S1\<rparr> dv opts lopts s
     = DeleteCollection mode \<lparr>Legacy = L, Storage = S2\<rparr> dv opts lopts s"
  by (simp_all add: Create_def Get_def List_def Delete_def DeleteCollection_def)

lemma Update_returns_primary_results:
  "fst (Update mode d name objInfo cv uv force opts s0) = Panic
   \<or> fst (Update mode d name objInfo cv uv force opts s0)
        = Returned (fst (sUpdate (Legacy d) (heap s0) name objInfo cv uv force opts))"
  by (rule UpdateFetch_cases [of d s0 name objInfo cv uv force opts])
     (simp add: Update_def UpdateFetch_eq Let_def split: prod.splits ref.splits)

text \<open>
  Claim C1. What a method returns to its caller is the same for any two behaviours of the
  secondary store. Update does otherwise. With the same primary store and the same
  arguments, the object returned to the caller carries the identity \<open>(u2, v2)\<close> of the
  secondary store's copy when the secondary store answers the fetch, and the identity
  \<open>(u1, v1)\<close> the primary store gave it when the secondary store is down. With a primary
  store that fails and returns nil, Update panics when the secondary store answers the
  fetch, and returns the primary's error when the secondary store is down.
\<close>

theorem Update_result_depends_on_secondary:
  "fst (exUpdate bothUp) = Returned (Ref 1, False, None)
   \<and> identityOf (heap (snd (exUpdate bothUp))) (Ref 1) = Some (''u2'', ''v2'')
   \<and> fst (exUpdate secondaryDown) = Returned (Ref 1, False, None)
   \<and> identityOf (heap (snd (exUpdate secondaryDown))) (Ref 1) = Some (''u1'', ''v1'')
   \<and> fst (exUpdate primaryDown) = Panic
   \<and> fst (exUpdate bothDown) = Returned (Null, False, Some unreachable)"
  by (simp add: run_defs example_defs)

subsection \<open>Identity on the mirror path\<close>

lemma Create_success_identity:
  assumes "sCreate (Legacy d) (heap s0) obj cv opts = ((res, None), h1)"
    and "identityOf h1 res \<noteq> None" and "identityOf h1 obj \<noteq> None"
  shows "fst (Create mode d obj cv opts s0) = Returned (res, None)"
    and "tasks (snd (Create mode d obj cv opts s0)) = tasks s0 @ [StorageCreateTask obj cv opts]"
    and "identityOf (heap (snd (Create mode d obj cv opts s0))) obj = identityOf h1 res"
    and "identityOf (heap (snd (Create mode d obj cv opts s0))) res = identityOf h1 res"
  using assms
  by (auto simp: Create_def callCreate_def recordLegacyDuration_def emit_def Accessor_def
      logIfError_def enrichObject_def updMeta_def metaOf_def go_def identityOf_def Let_def
      split: ref.splits option.splits)

lemma Update_found_identity:
  assumes f: "UpdateFetch mode d name objInfo cv uv force opts s0 = ((res, async, errLegacy, old), s7)"
    and "old \<noteq> Null"
    and r: "fst (Update mode d name objInfo cv uv force opts s0) = Returned r"
  shows "tasks (snd (Update mode d name objInfo cv uv force opts s0)) =
          tasks s0 @ [StorageUpdateTask name (UpdateWrapper (UpdateWrapper objInfo old) res)
                        cv uv force opts]"
    and "identityOf (heap s7) old \<noteq> None"
    and "identityOf (heap (snd (Update mode d name objInfo cv uv force opts s0))) res
           = identityOf (heap s7) old"
    and "identityOf (heap (snd (Update mode d name objInfo cv uv force opts s0))) old
           = identityOf (heap s7) old"
    and "r = (res, async, errLegacy)"
proof -
  have np: "\<not> (fst (Accessor (heap s7) res) = Null \<or> fst (Accessor (heap s7) old) = Null)"
    using Update_panics(1) [OF f \<open>old \<noteq> Null\<close>] r by auto
  then obtain a ao m mo where eq: "res = Ref a" "old = Ref ao" and
    m: "meta (heap s7 a) = Some m" "meta (heap s7 ao) = Some mo"
    by (auto simp: Accessor_def split: ref.splits option.splits)
  note F = f [unfolded eq]
  have t7: "tasks s7 = tasks s0"
    using UpdateFetch_tasks [of mode d name objInfo cv uv force opts s0] f by simp
  show "tasks (snd (Update mode d name objInfo cv uv force opts s0)) =
          tasks s0 @ [StorageUpdateTask name (UpdateWrapper (UpdateWrapper objInfo old) res)
                        cv uv force opts]"
    using Update_found(2) [OF F m] t7 eq by simp
  show "identityOf (heap s7) old \<noteq> None"
    using m eq by (simp add: identityOf_def)
  have ma: "meta (heap (snd (Update mode d name objInfo cv uv force opts s0)) a) \<noteq> None"
    and mao: "meta (heap (snd (Update mode d name objInfo cv uv force opts s0)) ao) \<noteq> None"
    using F m
    by (auto simp: Update_def Accessor_def logIfError_def Let_def go_def enrichObject_def
        SetUID_def SetResourceVersion_def updMeta_def)
  show "identityOf (heap (snd (Update mode d name objInfo cv uv force opts s0))) res
           = identityOf (heap s7) old"
    using Update_found(4,5) [OF F m] ma m eq
    by (auto simp: identityOf_def metaOf_def)
  show "identityOf (heap (snd (Update mode d name objInfo cv uv force opts s0))) old
           = identityOf (heap s7) old"
    using Update_found(6,7) [OF F m] mao m eq
    by (auto simp: identityOf_def metaOf_def)
  show "r = (res, async, errLegacy)"
    using Update_found(1) [OF F m] r eq by simp
qed

subsection \<open>The goroutines\<close>

text \<open>
  Run on a state, the goroutine launched by Create calls the secondary store's Create
  with the object it captured and records one secondary-store duration, flagged by the
  error of that call.
\<close>

lemma runTask_Create:
  assumes "sCreate (Storage d) (heap s) obj cv opts = ((r, err), h)"
  shows "runTask mode d (StorageCreateTask obj cv opts) s =
    s\<lparr>heap := h, trace := trace s @ [Called StorageBackend ''Create'',
        StorageDuration (err \<noteq> None) mode (Kind opts) ''create'']\<rparr>"
  using assms by (simp add: callCreate_def recordStorageDuration_def emit_def)

text \<open>
  The same for the goroutine launched by Update, and both without naming the result of the
  store's call: the heap the goroutine leaves is the heap the secondary store's call
  returns, and its events are the call and one secondary-store record.
\<close>

lemma runTask_Update:
  assumes "sUpdate (Storage d) (heap s) name objInfo cv uv force opts = ((r, async, err), h)"
  shows "runTask mode d (StorageUpdateTask name objInfo cv uv force opts) s =
    s\<lparr>heap := h, trace := trace s @ [Called StorageBackend ''Update'',
        StorageDuration (err \<noteq> None) mode name ''update'']\<rparr>"
  using assms by (simp add: callUpdate_def recordStorageDuration_def emit_def)

lemma runTask_Create_reaches:
  "heap (runTask mode d (StorageCreateTask obj cv opts) s)
     = snd (sCreate (Storage d) (heap s) obj cv opts)"
  "eventsSince s (runTask mode d (StorageCreateTask obj cv opts) s)
     = [Called StorageBackend ''Create'',
        StorageDuration (snd (fst (sCreate (Storage d) (heap s) obj cv opts)) \<noteq> None) mode
          (Kind opts) ''create'']"
proof -
  obtain r err h where c: "sCreate (Storage d) (heap s) obj cv opts = ((r, err), h)"
    by (metis prod.exhaust)
  show "heap (runTask mode d (StorageCreateTask obj cv opts) s)
     = snd (sCreate (Storage d) (heap s) obj cv opts)"
    by (simp add: runTask_Create [OF c] c del: runTask.simps)
  show "eventsSince s (runTask mode d (StorageCreateTask obj cv opts) s)
     = [Called StorageBackend ''Create'',
        StorageDuration (snd (fst (sCreate (Storage d) (heap s) obj cv opts)) \<noteq> None) mode
          (Kind opts) ''create'']"
    by (simp add: runTask_Create [OF c] c eventsSince_def del: runTask.simps)
qed

lemma runTask_Update_reaches:
  "heap (runTask mode d (StorageUpdateTask name objInfo cv uv force opts) s)
     = snd (sUpdate (Storage d) (heap s) name objInfo cv uv force opts)"
  "eventsSince s (runTask mode d (StorageUpdateTask name objInfo cv uv force opts) s)
     = [Called StorageBackend ''Update'',
        StorageDuration (snd (snd (fst (sUpdate (Storage d) (heap s) name objInfo cv uv force
          opts))) \<noteq> None) mode name ''update'']"
proof -
  obtain r async err h where
    c: "sUpdate (Storage d) (heap s) name objInfo cv uv force opts = ((r, async, err), h)"
    by (metis prod.exhaust)
  show "heap (runTask mode d (StorageUpdateTask name objInfo cv uv force opts) s)
     = snd (sUpdate (Storage d) (heap s) name objInfo cv uv force opts)"
    by (simp add: runTask_Update [OF c] c del: runTask.simps)
  show "eventsSince s (runTask mode d (StorageUpdateTask name objInfo cv uv force opts) s)
     = [Called StorageBackend ''Update'',
        StorageDuration (snd (snd (fst (sUpdate (Storage d) (heap s) name objInfo cv uv force
          opts))) \<noteq> None) mode name ''update'']"
    by (simp add: runTask_Update [OF c] c eventsSince_def del: runTask.simps)
qed

subsection \<open>Update and the read from the secondary store\<close>

lemma Update_found_ok:
  assumes f: "UpdateFetch mode d name objInfo cv uv force opts s0
        = ((res, async, errLegacy, old), s7)"
    and n: "old \<noteq> Null"
    and np: "\<not> (fst (Accessor (heap s7) res) = Null \<or> fst (Accessor (heap s7) old) = Null)"
  shows "fst (Update mode d name objInfo cv uv force opts s0) = Returned (res, async, errLegacy)"
proof -
  from np obtain a ao m mo where eq: "res = Ref a" "old = Ref ao" and
    m: "meta (heap s7 a) = Some m" "meta (heap s7 ao) = Some mo"
    by (auto simp: Accessor_def split: ref.splits option.splits)
  show ?thesis using Update_found(1) [OF f [unfolded eq] m] eq by simp
qed

lemma UpdateFetch_fetchEvents:
  assumes "sUpdate (Legacy d) (heap s0) name objInfo cv uv force opts
        = ((res, async, errLegacy), h1)"
    and "UpdatedObject objInfo h1 res = ((upd, err1), h2)"
    and "sGet (Storage d) h2 name emptyOptions = ((old, err2), h3)"
  shows "UpdateFetch mode d name objInfo cv uv force opts s0 =
    ((res, async, errLegacy, old),
     s0\<lparr>heap := h3, trace := trace s0 @ fetchEvents mode name res errLegacy err1 err2\<rparr>)"
  by (simp add: UpdateFetch_eq [OF assms] fetchEvents_def)

text \<open>
  Claim C10. In every Update call, whatever the primary update returned, Update resolves
  the caller's directive against the primary result \<open>res\<close> on the heap \<open>hp\<close> the primary
  store left, and then calls Get on the secondary store with the name of the call and
  empty options, on the heap \<open>hu\<close> the resolution left. Both happen on the calling
  goroutine: its events start with the events of these calls, in this order, and what
  Update answers is made from what the Get returned. When the Get found nothing, Update
  returns the primary's results on the heap \<open>hg\<close> the Get left and launches the mirror with
  the caller's directive. When it found \<open>old\<close>, Update either panics on a nil accessor, or
  returns the primary's results and launches the mirror with the directive wrapped around
  \<open>old\<close>, the primary result carrying the identity \<open>old\<close> has on \<open>hg\<close>.
\<close>

theorem Update_waits_for_secondary_read:
  assumes p: "sUpdate (Legacy d) (heap st) name objInfo createValidation updateValidation
                forceAllowCreate opts = ((res, async, errLegacy), hp)"
    and u: "UpdatedObject objInfo hp res = ((upd, errU), hu)"
    and g: "sGet (Storage d) hu name emptyOptions = ((old, errG), hg)"
    and r: "Update mode d name objInfo createValidation updateValidation forceAllowCreate opts st
              = (answer, su)"
  shows "subseq [UpdatedObjectCalled res, Called StorageBackend ''Get''] (eventsSince st su)
    \<and> prefix (fetchEvents mode name res errLegacy errU errG) (eventsSince st su)
    \<and> (if old = Null
        then answer = Returned (res, async, errLegacy)
           \<and> su = st\<lparr>heap := hg,
                     trace := trace st @ fetchEvents mode name res errLegacy errU errG,
                     tasks := tasks st @ [StorageUpdateTask name objInfo createValidation
                                updateValidation forceAllowCreate opts]\<rparr>
        else if fst (Accessor hg res) = Null \<or> fst (Accessor hg old) = Null
        then answer = Panic \<and> tasks su = tasks st
        else answer = Returned (res, async, errLegacy)
           \<and> tasks su
               = tasks st @ [StorageUpdateTask name (UpdateWrapper (UpdateWrapper objInfo old) res)
                               createValidation updateValidation forceAllowCreate opts]
           \<and> identityOf (heap su) res = identityOf hg old)"
proof -
  let ?U = "Update mode d name objInfo createValidation updateValidation forceAllowCreate opts st"
  let ?s7 = "st\<lparr>heap := hg, trace := trace st @ fetchEvents mode name res errLegacy errU errG\<rparr>"
  have a: "answer = fst ?U" and s: "su = snd ?U"
    using r by simp_all
  have f: "UpdateFetch mode d name objInfo createValidation updateValidation forceAllowCreate
             opts st = ((res, async, errLegacy, old), ?s7)"
    by (rule UpdateFetch_fetchEvents [OF p u g])
  have "prefix (trace ?s7) (trace (snd ?U))"
    using Update_trace_extends [of mode d name objInfo createValidation updateValidation
        forceAllowCreate opts st] f by simp
  then have pre: "prefix (fetchEvents mode name res errLegacy errU errG) (eventsSince st su)"
    unfolding s by (auto simp: prefix_def eventsSince_def)
  have "subseq [UpdatedObjectCalled res, Called StorageBackend ''Get'']
          (fetchEvents mode name res errLegacy errU errG)"
    by (simp add: fetchEvents_def logged_def split: option.splits)
  with pre have sub: "subseq [UpdatedObjectCalled res, Called StorageBackend ''Get'']
          (eventsSince st su)"
    using prefix_imp_subseq subseq_order.trans by blast
  have br: "if old = Null
        then answer = Returned (res, async, errLegacy)
           \<and> su = st\<lparr>heap := hg,
                     trace := trace st @ fetchEvents mode name res errLegacy errU errG,
                     tasks := tasks st @ [StorageUpdateTask name objInfo createValidation
                                updateValidation forceAllowCreate opts]\<rparr>
        else if fst (Accessor hg res) = Null \<or> fst (Accessor hg old) = Null
        then answer = Panic \<and> tasks su = tasks st
        else answer = Returned (res, async, errLegacy)
           \<and> tasks su
               = tasks st @ [StorageUpdateTask name (UpdateWrapper (UpdateWrapper objInfo old) res)
                               createValidation updateValidation forceAllowCreate opts]
           \<and> identityOf (heap su) res = identityOf hg old"
  proof (cases "old = Null")
    case True
    with f show ?thesis unfolding a s by (simp add: Update_not_found)
  next
    case nn: False
    show ?thesis
    proof (cases "fst (Accessor hg res) = Null \<or> fst (Accessor hg old) = Null")
      case True
      then have "fst (Accessor (heap ?s7) res) = Null \<or> fst (Accessor (heap ?s7) old) = Null"
        by simp
      from Update_panics(1,2) [OF f nn this] nn True show ?thesis unfolding a s by simp
    next
      case False
      then have np: "\<not> (fst (Accessor (heap ?s7) res) = Null \<or> fst (Accessor (heap ?s7) old) = Null)"
        by simp
      have r: "fst ?U = Returned (res, async, errLegacy)"
        by (rule Update_found_ok [OF f nn np])
      from Update_found_identity(1,3) [OF f nn r] r nn False show ?thesis unfolding a s by simp
    qed
  qed
  from sub pre br show ?thesis by blast
qed

theorem Update_waits_for_secondary_read_witness:
  "sUpdate (Legacy bothUp) (heap state0) ''x'' keepCurrent (ValidateObjectFunc 0)
       (ValidateObjectUpdateFunc 0) False someOptions
     = ((Ref 1, False, None), heap0(1 := mkObject ''u1'' ''v1'' ''a''))
   \<and> UpdatedObject keepCurrent (heap0(1 := mkObject ''u1'' ''v1'' ''a'')) (Ref 1)
     = ((Ref 1, None), heap0(1 := mkObject ''u1'' ''v1'' ''a''))
   \<and> sGet (Storage bothUp) (heap0(1 := mkObject ''u1'' ''v1'' ''a'')) ''x'' emptyOptions
     = ((Ref 2, None), heap0(1 := mkObject ''u1'' ''v1'' ''a'', 2 := mkObject ''u2'' ''v2'' ''a''))
   \<and> prefix [Called LegacyBackend ''Update'', LegacyDuration False ''1'' ''x'' ''update'',
             UpdatedObjectCalled (Ref 1), Called StorageBackend ''Get'']
        (eventsSince state0 (snd (exUpdate bothUp)))
   \<and> fst (exUpdate bothUp) = Returned (Ref 1, False, None)
   \<and> tasks (snd (exUpdate bothUp))
       = [StorageUpdateTask ''x'' (UpdateWrapper (UpdateWrapper keepCurrent (Ref 2)) (Ref 1))
            (ValidateObjectFunc 0) (ValidateObjectUpdateFunc 0) False someOptions]
   \<and> identityOf (heap (snd (exUpdate bothUp))) (Ref 1) = Some (''u2'', ''v2'')
   \<and> sUpdate (Legacy secondaryDown) (heap state0) ''x'' keepCurrent (ValidateObjectFunc 0)
       (ValidateObjectUpdateFunc 0) False someOptions
     = ((Ref 1, False, None), heap0(1 := mkObject ''u1'' ''v1'' ''a''))
   \<and> sGet (Storage secondaryDown) (heap0(1 := mkObject ''u1'' ''v1'' ''a'')) ''x'' emptyOptions
     = ((Null, Some unreachable), heap0(1 := mkObject ''u1'' ''v1'' ''a''))
   \<and> fst (exUpdate secondaryDown) = Returned (Ref 1, False, None)
   \<and> snd (exUpdate secondaryDown)
     = \<lparr>heap = heap0(1 := mkObject ''u1'' ''v1'' ''a''),
        trace = [Called LegacyBackend ''Update'', LegacyDuration False ''1'' ''x'' ''update'',
                 UpdatedObjectCalled (Ref 1), Called StorageBackend ''Get'',
                 LogError unreachable ''could not get object to update''],
        tasks = [StorageUpdateTask ''x'' keepCurrent (ValidateObjectFunc 0)
                   (ValidateObjectUpdateFunc 0) False someOptions]\<rparr>
   \<and> sUpdate (Legacy primaryDown) (heap state0) ''x'' keepCurrent (ValidateObjectFunc 0)
       (ValidateObjectUpdateFunc 0) False someOptions
     = ((Null, False, Some unreachable), heap0)
   \<and> UpdatedObject keepCurrent heap0 Null = ((Null, None), heap0)
   \<and> sGet (Storage primaryDown) heap0 ''x'' emptyOptions
     = ((Ref 2, None), heap0(2 := mkObject ''u2'' ''v2'' ''a''))
   \<and> fst (exUpdate primaryDown) = Panic
   \<and> tasks (snd (exUpdate primaryDown)) = []"
proof -
  let ?h1 = "heap0(1 := mkObject ''u1'' ''v1'' ''a'')"
  let ?h12 = "heap0(1 := mkObject ''u1'' ''v1'' ''a'', 2 := mkObject ''u2'' ''v2'' ''a'')"
  let ?h2 = "heap0(2 := mkObject ''u2'' ''v2'' ''a'')"
  have p1: "sUpdate (Legacy bothUp) (heap state0) ''x'' keepCurrent (ValidateObjectFunc 0)
       (ValidateObjectUpdateFunc 0) False someOptions = ((Ref 1, False, None), ?h1)"
    by (simp add: bothUp_def primaryStore_def okStore_def state0_def)
  have u1: "UpdatedObject keepCurrent ?h1 (Ref 1) = ((Ref 1, None), ?h1)"
    by (simp add: keepCurrent_def)
  have g1: "sGet (Storage bothUp) ?h1 ''x'' emptyOptions = ((Ref 2, None), ?h12)"
    by (simp add: bothUp_def secondaryStore_def okStore_def)
  have p2: "sUpdate (Legacy secondaryDown) (heap state0) ''x'' keepCurrent (ValidateObjectFunc 0)
       (ValidateObjectUpdateFunc 0) False someOptions = ((Ref 1, False, None), ?h1)"
    by (simp add: secondaryDown_def primaryStore_def okStore_def state0_def)
  have g2: "sGet (Storage secondaryDown) ?h1 ''x'' emptyOptions = ((Null, Some unreachable), ?h1)"
    by (simp add: secondaryDown_def downStore_def)
  have p3: "sUpdate (Legacy primaryDown) (heap state0) ''x'' keepCurrent (ValidateObjectFunc 0)
       (ValidateObjectUpdateFunc 0) False someOptions = ((Null, False, Some unreachable), heap0)"
    by (simp add: primaryDown_def downStore_def state0_def)
  have u3: "UpdatedObject keepCurrent heap0 Null = ((Null, None), heap0)"
    by (simp add: keepCurrent_def)
  have g3: "sGet (Storage primaryDown) heap0 ''x'' emptyOptions = ((Ref 2, None), ?h2)"
    by (simp add: primaryDown_def secondaryStore_def okStore_def)
  have r: "exUpdate d = (fst (exUpdate d), snd (exUpdate d))" for d
    by simp
  have i1: "identityOf ?h12 (Ref 2) = Some (''u2'', ''v2'')"
    by (simp add: identityOf_def mkObject_def)
  have a1: "fst (Accessor ?h12 (Ref 1)) = Ref 1" "fst (Accessor ?h12 (Ref 2)) = Ref 2"
    by (simp_all add: Accessor_def mkObject_def)
  have a3: "fst (Accessor ?h2 Null) = Null"
    by (simp add: Accessor_def)
  note W1 = Update_waits_for_secondary_read [OF p1 u1 g1 r]
  note W2 = Update_waits_for_secondary_read [OF p2 u1 g2 r]
  note W3 = Update_waits_for_secondary_read [OF p3 u3 g3 r]
  from W1 a1 i1 have c1: "prefix [Called LegacyBackend ''Update'',
        LegacyDuration False ''1'' ''x'' ''update'', UpdatedObjectCalled (Ref 1),
        Called StorageBackend ''Get''] (eventsSince state0 (snd (exUpdate bothUp)))
     \<and> fst (exUpdate bothUp) = Returned (Ref 1, False, None)
     \<and> tasks (snd (exUpdate bothUp))
       = [StorageUpdateTask ''x'' (UpdateWrapper (UpdateWrapper keepCurrent (Ref 2)) (Ref 1))
            (ValidateObjectFunc 0) (ValidateObjectUpdateFunc 0) False someOptions]
     \<and> identityOf (heap (snd (exUpdate bothUp))) (Ref 1) = Some (''u2'', ''v2'')"
    by (simp add: fetchEvents_def logged_def state0_def)
  from W2 have c2: "fst (exUpdate secondaryDown) = Returned (Ref 1, False, None)
     \<and> snd (exUpdate secondaryDown)
       = \<lparr>heap = ?h1,
         trace = [Called LegacyBackend ''Update'', LegacyDuration False ''1'' ''x'' ''update'',
                  UpdatedObjectCalled (Ref 1), Called StorageBackend ''Get'',
                  LogError unreachable ''could not get object to update''],
         tasks = [StorageUpdateTask ''x'' keepCurrent (ValidateObjectFunc 0)
                    (ValidateObjectUpdateFunc 0) False someOptions]\<rparr>"
    by (simp add: fetchEvents_def logged_def state0_def)
  from W3 a3 have c3: "fst (exUpdate primaryDown) = Panic \<and> tasks (snd (exUpdate primaryDown)) = []"
    by (simp add: state0_def)
  show ?thesis
    using p1 u1 g1 p2 g2 p3 u3 g3 c1 c2 c3 by simp
qed

subsection \<open>Identity on the way to the secondary store\<close>

lemma Create_accessor_failure:
  assumes c: "sCreate (Legacy d) (heap s0) obj cv opts = ((res, None), h1)"
    and a: "identityOf h1 res = None \<or> identityOf h1 obj = None"
  shows "tasks (snd (Create mode d obj cv opts s0)) = tasks s0 @ [StorageCreateTask obj cv opts]"
    and "heap (snd (Create mode d obj cv opts s0)) = h1"
  using assms
  by (auto simp: Create_def callCreate_def recordLegacyDuration_def emit_def Accessor_def
      logIfError_def logError_def enrichObject_def go_def identityOf_def Let_def
      split: ref.splits option.splits)

text \<open>
  Claim C2, amended. Let the primary Create succeed, and let both the primary result and
  the caller's input object expose identity metadata. Then Create returns the primary
  result with no error and launches one goroutine. Run on the state Create returns in,
  this goroutine calls the secondary store's Create with the caller's input object, the
  same validation and options, on a heap where that object carries the UID and the
  resource version of the primary result, whatever identity values the caller had put on
  it; it records one secondary-store duration, flagged by the error of that call. The
  primary result keeps its identity.
\<close>

theorem Create_mirror_identity:
  assumes c: "sCreate (Legacy d) (heap s0) obj createValidation opts = ((res, None), h1)"
    and i: "identityOf h1 res \<noteq> None"
    and j: "identityOf h1 obj \<noteq> None"
    and r: "Create mode d obj createValidation opts s0 = (answer, sc)"
  shows "answer = Returned (res, None)
    \<and> tasks sc = tasks s0 @ [StorageCreateTask obj createValidation opts]
    \<and> identityOf (heap sc) obj = identityOf h1 res
    \<and> identityOf (heap sc) res = identityOf h1 res
    \<and> heap (runTask mode d (last (tasks sc)) sc)
         = snd (sCreate (Storage d) (heap sc) obj createValidation opts)
    \<and> eventsSince sc (runTask mode d (last (tasks sc)) sc)
         = [Called StorageBackend ''Create'',
            StorageDuration
              (snd (fst (sCreate (Storage d) (heap sc) obj createValidation opts)) \<noteq> None)
              mode (Kind opts) ''create'']"
proof -
  have a: "answer = fst (Create mode d obj createValidation opts s0)"
    and s: "sc = snd (Create mode d obj createValidation opts s0)"
    using r by simp_all
  note I = Create_success_identity [OF c i j, of mode, folded a s]
  have l: "last (tasks sc) = StorageCreateTask obj createValidation opts"
    using I(2) by simp
  show ?thesis
    using I by (simp add: l runTask_Create_reaches del: runTask.simps)
qed

theorem Create_mirror_identity_witness:
  "sCreate (Legacy bothUp) (heap state0) (Ref 0) (ValidateObjectFunc 0) someOptions
      = ((Ref 1, None), heap0(1 := mkObject ''u1'' ''v1'' ''a''))
   \<and> identityOf (heap0(1 := mkObject ''u1'' ''v1'' ''a'')) (Ref 1) = Some (''u1'', ''v1'')
   \<and> identityOf (heap0(1 := mkObject ''u1'' ''v1'' ''a'')) (Ref 0) = Some ([], [])
   \<and> fst (exCreate bothUp state0) = Returned (Ref 1, None)
   \<and> tasks (snd (exCreate bothUp state0))
       = [StorageCreateTask (Ref 0) (ValidateObjectFunc 0) someOptions]
   \<and> identityOf (heap (snd (exCreate bothUp state0))) (Ref 0) = Some (''u1'', ''v1'')
   \<and> heap (runTask ''1'' bothUp (last (tasks (snd (exCreate bothUp state0))))
              (snd (exCreate bothUp state0)))
       = snd (sCreate (Storage bothUp) (heap (snd (exCreate bothUp state0))) (Ref 0)
                (ValidateObjectFunc 0) someOptions)
   \<and> eventsSince (snd (exCreate bothUp state0))
        (runTask ''1'' bothUp (last (tasks (snd (exCreate bothUp state0))))
           (snd (exCreate bothUp state0)))
       = [Called StorageBackend ''Create'', StorageDuration False ''1'' ''dashboard'' ''create'']"
proof -
  have c: "sCreate (Legacy bothUp) (heap state0) (Ref 0) (ValidateObjectFunc 0) someOptions
      = ((Ref 1, None), heap0(1 := mkObject ''u1'' ''v1'' ''a''))"
    by (simp add: bothUp_def primaryStore_def okStore_def state0_def)
  have r: "identityOf (heap0(1 := mkObject ''u1'' ''v1'' ''a'')) (Ref 1) = Some (''u1'', ''v1'')"
    by (simp add: identityOf_def mkObject_def)
  have o: "identityOf (heap0(1 := mkObject ''u1'' ''v1'' ''a'')) (Ref 0) = Some ([], [])"
    by (simp add: identityOf_def mkObject_def heap0_def)
  have r': "identityOf (heap0(1 := mkObject ''u1'' ''v1'' ''a'')) (Ref 1) \<noteq> None"
    using r by simp
  have o': "identityOf (heap0(1 := mkObject ''u1'' ''v1'' ''a'')) (Ref 0) \<noteq> None"
    using o by simp
  have e: "snd (fst (sCreate (Storage bothUp) h (Ref 0) (ValidateObjectFunc 0) someOptions)) = None"
    for h
    by (simp add: bothUp_def secondaryStore_def okStore_def)
  have k: "Kind someOptions = ''dashboard''"
    by (simp add: someOptions_def)
  have p: "exCreate bothUp state0 = (fst (exCreate bothUp state0), snd (exCreate bothUp state0))"
    by simp
  note T = Create_mirror_identity [OF c r' o' p]
  have l: "last (tasks (snd (exCreate bothUp state0)))
      = StorageCreateTask (Ref 0) (ValidateObjectFunc 0) someOptions"
    using T by (simp add: state0_def)
  have t: "tasks state0 = []"
    by (simp add: state0_def)
  show ?thesis
    using c r o e k T [unfolded l t]
    by (simp add: l del: runTask.simps)
qed

text \<open>
  Without the hypothesis on the input object the statement fails. The caller's object at
  address 0 exposes no identity metadata; the primary Create succeeds and its result has
  the identity \<open>(u1, v1)\<close>, when the primary store returns it and when Create returns; the
  object passed to the secondary store's Create is the caller's object, which carries no
  identity. (Create also returns the accessor's error for the input object, since the
  source assigns it to the same \<^verbatim>\<open>err\<close> it returns.)
\<close>

theorem Create_opaque_input_counterexample:
  "fst (exCreate bothUp stateOpaque) = Returned (Ref 1, Some errNotObject)
   \<and> snd (fst (sCreate (Legacy bothUp) (heap stateOpaque) (Ref 0) (ValidateObjectFunc 0)
              someOptions)) = None
   \<and> identityOf (snd (sCreate (Legacy bothUp) (heap stateOpaque) (Ref 0) (ValidateObjectFunc 0)
              someOptions)) (Ref 1) = Some (''u1'', ''v1'')
   \<and> tasks (snd (exCreate bothUp stateOpaque))
       = [StorageCreateTask (Ref 0) (ValidateObjectFunc 0) someOptions]
   \<and> identityOf (heap (snd (exCreate bothUp stateOpaque))) (Ref 1) = Some (''u1'', ''v1'')
   \<and> identityOf (heap (snd (exCreate bothUp stateOpaque))) (Ref 0) = None"
  by (simp add: run_defs example_defs go_def)

text \<open>
  Claim C4, amended. What the mirrors hand to the secondary store, for every call that
  launches one. Create, when the primary result and the input object both expose identity
  metadata: the goroutine calls the secondary store's Create with the input object, which
  carries the UID and the resource version of the primary result. Create, when one of the
  two exposes none: the goroutine calls the secondary store's Create with the input object
  on the heap as the primary store left it, nothing reconciled. Update, when the fetch
  found a copy \<open>old\<close> and the call returns: the goroutine calls the secondary store's Update
  with the directive wrapped around \<open>old\<close> and the primary result \<open>res\<close>, and both carry
  the UID and the resource version of the secondary store's own copy \<open>old\<close>, as fetched.
  Update, when the fetch found nothing: the goroutine calls the secondary store's Update
  with the caller's directive as it is, on the heap as the fetch left it, nothing
  reconciled. An Update call that found a copy and does not return launches no goroutine.
\<close>

theorem mirror_identity:
  assumes p: "sCreate (Legacy d) (heap st) obj createValidation opts = ((res, errC), hp)"
    and c: "Create mode d obj createValidation opts st = (rc, sc)"
    and f: "UpdateFetch mode d name objInfo createValidation updateValidation forceAllowCreate
              uopts st = ((ures, async, errLegacy, old), sf)"
    and u: "Update mode d name objInfo createValidation updateValidation forceAllowCreate
              uopts st = (ru, su)"
  shows "(errC = None \<and> identityOf hp res \<noteq> None \<and> identityOf hp obj \<noteq> None
      \<longrightarrow> tasks sc = tasks st @ [StorageCreateTask obj createValidation opts]
        \<and> identityOf (heap sc) obj = identityOf hp res
        \<and> heap (runTask mode d (last (tasks sc)) sc)
            = snd (sCreate (Storage d) (heap sc) obj createValidation opts))
    \<and> (errC = None \<and> (identityOf hp res = None \<or> identityOf hp obj = None)
      \<longrightarrow> tasks sc = tasks st @ [StorageCreateTask obj createValidation opts]
        \<and> heap sc = hp
        \<and> heap (runTask mode d (last (tasks sc)) sc)
            = snd (sCreate (Storage d) hp obj createValidation opts))
    \<and> (old \<noteq> Null \<and> ru = Returned r
      \<longrightarrow> tasks su
            = tasks st @ [StorageUpdateTask name (UpdateWrapper (UpdateWrapper objInfo old) ures)
                            createValidation updateValidation forceAllowCreate uopts]
        \<and> identityOf (heap sf) old \<noteq> None
        \<and> identityOf (heap su) ures = identityOf (heap sf) old
        \<and> identityOf (heap su) old = identityOf (heap sf) old
        \<and> heap (runTask mode d (last (tasks su)) su)
            = snd (sUpdate (Storage d) (heap su) name
                     (UpdateWrapper (UpdateWrapper objInfo old) ures)
                     createValidation updateValidation forceAllowCreate uopts))
    \<and> (old = Null
      \<longrightarrow> ru = Returned (ures, async, errLegacy)
        \<and> tasks su
            = tasks st @ [StorageUpdateTask name objInfo createValidation updateValidation
                            forceAllowCreate uopts]
        \<and> heap su = heap sf
        \<and> heap (runTask mode d (last (tasks su)) su)
            = snd (sUpdate (Storage d) (heap sf) name objInfo createValidation updateValidation
                     forceAllowCreate uopts))
    \<and> (old \<noteq> Null \<and> ru = Panic \<longrightarrow> tasks su = tasks st)"
proof -
  have rc: "rc = fst (Create mode d obj createValidation opts st)"
    and sc: "sc = snd (Create mode d obj createValidation opts st)"
    using c by simp_all
  have ru: "ru = fst (Update mode d name objInfo createValidation updateValidation
                        forceAllowCreate uopts st)"
    and su: "su = snd (Update mode d name objInfo createValidation updateValidation
                        forceAllowCreate uopts st)"
    using u by simp_all
  have t: "tasks sf = tasks st"
    using UpdateFetch_tasks [of mode d name objInfo createValidation updateValidation
        forceAllowCreate uopts st] f by simp
  have c1: "tasks sc = tasks st @ [StorageCreateTask obj createValidation opts]
        \<and> identityOf (heap sc) obj = identityOf hp res
        \<and> heap (runTask mode d (last (tasks sc)) sc)
            = snd (sCreate (Storage d) (heap sc) obj createValidation opts)"
    if "errC = None \<and> identityOf hp res \<noteq> None \<and> identityOf hp obj \<noteq> None"
  proof -
    from that p have q: "sCreate (Legacy d) (heap st) obj createValidation opts = ((res, None), hp)"
      and i: "identityOf hp res \<noteq> None" and j: "identityOf hp obj \<noteq> None"
      by simp_all
    note I = Create_success_identity [OF q i j, of mode, folded sc]
    show ?thesis
      using I(2,3) by (simp add: runTask_Create_reaches del: runTask.simps)
  qed
  have c2: "tasks sc = tasks st @ [StorageCreateTask obj createValidation opts]
        \<and> heap sc = hp
        \<and> heap (runTask mode d (last (tasks sc)) sc)
            = snd (sCreate (Storage d) hp obj createValidation opts)"
    if "errC = None \<and> (identityOf hp res = None \<or> identityOf hp obj = None)"
  proof -
    from that p have q: "sCreate (Legacy d) (heap st) obj createValidation opts = ((res, None), hp)"
      and a: "identityOf hp res = None \<or> identityOf hp obj = None"
      by simp_all
    note I = Create_accessor_failure [OF q a, of mode, folded sc]
    show ?thesis
      using I by (simp add: runTask_Create_reaches del: runTask.simps)
  qed
  have u1: "tasks su
            = tasks st @ [StorageUpdateTask name (UpdateWrapper (UpdateWrapper objInfo old) ures)
                            createValidation updateValidation forceAllowCreate uopts]
        \<and> identityOf (heap sf) old \<noteq> None
        \<and> identityOf (heap su) ures = identityOf (heap sf) old
        \<and> identityOf (heap su) old = identityOf (heap sf) old
        \<and> heap (runTask mode d (last (tasks su)) su)
            = snd (sUpdate (Storage d) (heap su) name
                     (UpdateWrapper (UpdateWrapper objInfo old) ures)
                     createValidation updateValidation forceAllowCreate uopts)"
    if "old \<noteq> Null \<and> ru = Returned r"
  proof -
    from that have n: "old \<noteq> Null"
      and r: "fst (Update mode d name objInfo createValidation updateValidation
                     forceAllowCreate uopts st) = Returned r"
      by (simp_all add: ru)
    note I = Update_found_identity [OF f n r, folded su]
    show ?thesis
      using I(1,2,3,4) by (simp add: runTask_Update_reaches del: runTask.simps)
  qed
  have u2: "ru = Returned (ures, async, errLegacy)
        \<and> tasks su
            = tasks st @ [StorageUpdateTask name objInfo createValidation updateValidation
                            forceAllowCreate uopts]
        \<and> heap su = heap sf
        \<and> heap (runTask mode d (last (tasks su)) su)
            = snd (sUpdate (Storage d) (heap sf) name objInfo createValidation updateValidation
                     forceAllowCreate uopts)"
    if "old = Null"
  proof -
    from that f have g: "UpdateFetch mode d name objInfo createValidation updateValidation
        forceAllowCreate uopts st = ((ures, async, errLegacy, Null), sf)"
      by simp
    show ?thesis
      unfolding ru su Update_not_found [OF g]
      by (simp add: t runTask_Update_reaches del: runTask.simps)
  qed
  have u3: "tasks su = tasks st" if "old \<noteq> Null \<and> ru = Panic"
  proof -
    from that have n: "old \<noteq> Null"
      and r: "fst (Update mode d name objInfo createValidation updateValidation
                     forceAllowCreate uopts st) = Panic"
      by (simp_all add: ru)
    have "fst (Accessor (heap sf) ures) = Null \<or> fst (Accessor (heap sf) old) = Null"
      using Update_found_ok [OF f n] r by auto
    from Update_panics(2) [OF f n this] t show ?thesis
      by (simp add: su)
  qed
  from c1 c2 u1 u2 u3 show ?thesis by blast
qed

theorem mirror_identity_witness:
  "sCreate (Legacy bothUp) (heap state0) (Ref 0) (ValidateObjectFunc 0) someOptions
      = ((Ref 1, None), heap0(1 := mkObject ''u1'' ''v1'' ''a''))
   \<and> identityOf (heap0(1 := mkObject ''u1'' ''v1'' ''a'')) (Ref 1) = Some (''u1'', ''v1'')
   \<and> identityOf (heap0(1 := mkObject ''u1'' ''v1'' ''a'')) (Ref 0) = Some ([], [])
   \<and> tasks (snd (exCreate bothUp state0))
       = [StorageCreateTask (Ref 0) (ValidateObjectFunc 0) someOptions]
   \<and> identityOf (heap (snd (exCreate bothUp state0))) (Ref 0) = Some (''u1'', ''v1'')
   \<and> sCreate (Legacy bothUp) (heap stateOpaque) (Ref 0) (ValidateObjectFunc 0) someOptions
      = ((Ref 1, None), (\<lambda>a. opaqueObject ''a'')(1 := mkObject ''u1'' ''v1'' ''a''))
   \<and> identityOf ((\<lambda>a. opaqueObject ''a'')(1 := mkObject ''u1'' ''v1'' ''a'')) (Ref 0) = None
   \<and> heap (snd (exCreate bothUp stateOpaque))
      = (\<lambda>a. opaqueObject ''a'')(1 := mkObject ''u1'' ''v1'' ''a'')
   \<and> exUpdateFetch bothUp = ((Ref 1, False, None, Ref 2), snd (exUpdateFetch bothUp))
   \<and> Ref 2 \<noteq> Null
   \<and> fst (exUpdate bothUp) = Returned (Ref 1, False, None)
   \<and> identityOf (heap (snd (exUpdateFetch bothUp))) (Ref 2) = Some (''u2'', ''v2'')
   \<and> tasks (snd (exUpdate bothUp))
       = [StorageUpdateTask ''x'' (UpdateWrapper (UpdateWrapper keepCurrent (Ref 2)) (Ref 1))
            (ValidateObjectFunc 0) (ValidateObjectUpdateFunc 0) False someOptions]
   \<and> identityOf (heap (snd (exUpdate bothUp))) (Ref 1) = Some (''u2'', ''v2'')
   \<and> exUpdateFetch secondaryDown
       = ((Ref 1, False, None, Null), snd (exUpdateFetch secondaryDown))
   \<and> fst (exUpdate secondaryDown) = Returned (Ref 1, False, None)
   \<and> tasks (snd (exUpdate secondaryDown))
       = [StorageUpdateTask ''x'' keepCurrent (ValidateObjectFunc 0) (ValidateObjectUpdateFunc 0)
            False someOptions]
   \<and> exUpdateFetch primaryDown
       = ((Null, False, Some unreachable, Ref 2), snd (exUpdateFetch primaryDown))
   \<and> fst (exUpdate primaryDown) = Panic
   \<and> tasks (snd (exUpdate primaryDown)) = []"
proof -
  let ?h1 = "heap0(1 := mkObject ''u1'' ''v1'' ''a'')"
  let ?ho = "(\<lambda>a. opaqueObject ''a'')(1 := mkObject ''u1'' ''v1'' ''a'')"
  let ?UO = "Update ''1'' bothUp ''x'' keepCurrent (ValidateObjectFunc 0)
               (ValidateObjectUpdateFunc 0) False someOptions stateOpaque"
  let ?FO = "UpdateFetch ''1'' bothUp ''x'' keepCurrent (ValidateObjectFunc 0)
               (ValidateObjectUpdateFunc 0) False someOptions stateOpaque"
  have c: "sCreate (Legacy bothUp) (heap state0) (Ref 0) (ValidateObjectFunc 0) someOptions
      = ((Ref 1, None), ?h1)"
    by (simp add: bothUp_def primaryStore_def okStore_def state0_def)
  have cs: "sCreate (Legacy secondaryDown) (heap state0) (Ref 0) (ValidateObjectFunc 0)
      someOptions = ((Ref 1, None), ?h1)"
    by (simp add: secondaryDown_def primaryStore_def okStore_def state0_def)
  have cp: "sCreate (Legacy primaryDown) (heap state0) (Ref 0) (ValidateObjectFunc 0)
      someOptions = ((Null, Some unreachable), heap0)"
    by (simp add: primaryDown_def downStore_def state0_def)
  have i: "identityOf ?h1 (Ref 1) = Some (''u1'', ''v1'')"
    by (simp add: identityOf_def mkObject_def)
  have j: "identityOf ?h1 (Ref 0) = Some ([], [])"
    by (simp add: identityOf_def mkObject_def heap0_def)
  have co: "sCreate (Legacy bothUp) (heap stateOpaque) (Ref 0) (ValidateObjectFunc 0) someOptions
      = ((Ref 1, None), ?ho)"
    by (simp add: bothUp_def primaryStore_def okStore_def stateOpaque_def)
  have jo: "identityOf ?ho (Ref 0) = None"
    by (simp add: identityOf_def opaqueObject_def)
  have pc: "exCreate d s = (fst (exCreate d s), snd (exCreate d s))" for d s
    by simp
  have pu: "exUpdate d = (fst (exUpdate d), snd (exUpdate d))" for d
    by simp
  have puo: "?UO = (fst ?UO, snd ?UO)"
    by simp
  have f: "exUpdateFetch bothUp = ((Ref 1, False, None, Ref 2), snd (exUpdateFetch bothUp))"
    by (simp add: run_defs example_defs)
  have fo: "?FO = ((Ref 1, False, None, Ref 2), snd ?FO)"
    by (simp add: run_defs example_defs)
  have r: "fst (exUpdate bothUp) = Returned (Ref 1, False, None)"
    by (simp add: run_defs example_defs)
  have k: "identityOf (heap (snd (exUpdateFetch bothUp))) (Ref 2) = Some (''u2'', ''v2'')"
    by (simp add: run_defs example_defs)
  have fn: "exUpdateFetch secondaryDown
       = ((Ref 1, False, None, Null), snd (exUpdateFetch secondaryDown))"
    by (simp add: run_defs example_defs)
  have fp: "exUpdateFetch primaryDown
       = ((Null, False, Some unreachable, Ref 2), snd (exUpdateFetch primaryDown))"
    by (simp add: run_defs example_defs)
  have rp: "fst (exUpdate primaryDown) = Panic"
    by (simp add: run_defs example_defs)
  have t: "tasks state0 = []"
    by (simp add: state0_def)
  note M1 = mirror_identity [OF c pc f pu, where r = "(Ref 1, False, None)"]
  note M2 = mirror_identity [OF co pc fo puo]
  note M3 = mirror_identity [OF cs pc fn pu]
  note M4 = mirror_identity [OF cp pc fp pu]
  from M1 i j have C1: "tasks (snd (exCreate bothUp state0))
       = [StorageCreateTask (Ref 0) (ValidateObjectFunc 0) someOptions]
     \<and> identityOf (heap (snd (exCreate bothUp state0))) (Ref 0) = Some (''u1'', ''v1'')"
    by (simp add: t)
  from M2 jo have C2: "heap (snd (exCreate bothUp stateOpaque)) = ?ho"
    by simp
  from M1 r k have C3: "tasks (snd (exUpdate bothUp))
       = [StorageUpdateTask ''x'' (UpdateWrapper (UpdateWrapper keepCurrent (Ref 2)) (Ref 1))
            (ValidateObjectFunc 0) (ValidateObjectUpdateFunc 0) False someOptions]
     \<and> identityOf (heap (snd (exUpdate bothUp))) (Ref 1) = Some (''u2'', ''v2'')"
    by (simp add: t)
  from M3 have C4: "fst (exUpdate secondaryDown) = Returned (Ref 1, False, None)
     \<and> tasks (snd (exUpdate secondaryDown))
       = [StorageUpdateTask ''x'' keepCurrent (ValidateObjectFunc 0) (ValidateObjectUpdateFunc 0)
            False someOptions]"
    by (simp add: t)
  from M4 rp have C5: "tasks (snd (exUpdate primaryDown)) = []"
    by (simp add: t)
  show ?thesis
    using c i j co jo f r k fn fp rp C1 C2 C3 C4 C5 by simp
qed

text \<open>
  The claim as first stated fails on both mirrors. Update: the primary Update returns an
  object with the identity \<open>(u1, v1)\<close>, the secondary store holds a copy with the identity
  \<open>(u2, v2)\<close>, and the primary result handed to the secondary store's Update carries
  \<open>(u2, v2)\<close>. Create: the primary result has the identity \<open>(u1, v1)\<close> and the object
  handed to the secondary store's Create, the caller's, carries none.
\<close>

theorem mirror_identity_counterexample:
  "fst (exUpdate bothUp) = Returned (Ref 1, False, None)
   \<and> identityOf (snd (sUpdate (Legacy bothUp) (heap state0) ''x'' keepCurrent
        (ValidateObjectFunc 0) (ValidateObjectUpdateFunc 0) False someOptions)) (Ref 1)
       = Some (''u1'', ''v1'')
   \<and> tasks (snd (exUpdate bothUp))
       = [StorageUpdateTask ''x'' (UpdateWrapper (UpdateWrapper keepCurrent (Ref 2)) (Ref 1))
            (ValidateObjectFunc 0) (ValidateObjectUpdateFunc 0) False someOptions]
   \<and> identityOf (heap (snd (exUpdate bothUp))) (Ref 1) = Some (''u2'', ''v2'')
   \<and> identityOf (heap (snd (exUpdate bothUp))) (Ref 2) = Some (''u2'', ''v2'')
   \<and> snd (fst (sCreate (Legacy bothUp) (heap stateOpaque) (Ref 0) (ValidateObjectFunc 0)
              someOptions)) = None
   \<and> identityOf (snd (sCreate (Legacy bothUp) (heap stateOpaque) (Ref 0) (ValidateObjectFunc 0)
              someOptions)) (Ref 1) = Some (''u1'', ''v1'')
   \<and> last (tasks (snd (exCreate bothUp stateOpaque)))
       = StorageCreateTask (Ref 0) (ValidateObjectFunc 0) someOptions
   \<and> identityOf (heap (snd (exCreate bothUp stateOpaque))) (Ref 0) = None"
  by (simp add: run_defs example_defs)

subsection \<open>The rewrapped directive\<close>

text \<open>
  When the fetch found a copy \<open>old\<close> and Update returns, the goroutine calls the secondary
  store's Update with the caller's directive wrapped around \<open>old\<close> and then around the
  primary result \<open>res\<close>; resolved against any current object, on any heap, this directive
  resolves the caller's directive against \<open>old\<close>; and \<open>res\<close> carries the identity \<open>old\<close>
  had when it was fetched.
\<close>

lemma Update_mirror_rewrapped:
  assumes "UpdateFetch mode d name objInfo cv uv force opts s0 = ((res, async, errLegacy, old), s7)"
    and "old \<noteq> Null"
    and "fst (Update mode d name objInfo cv uv force opts s0) = Returned r"
  shows "last (tasks (snd (Update mode d name objInfo cv uv force opts s0)))
           = StorageUpdateTask name (UpdateWrapper (UpdateWrapper objInfo old) res) cv uv force opts"
    and "heap (runTask mode d (last (tasks (snd (Update mode d name objInfo cv uv force opts s0))))
                (snd (Update mode d name objInfo cv uv force opts s0)))
           = snd (sUpdate (Storage d) (heap (snd (Update mode d name objInfo cv uv force opts s0)))
                    name (UpdateWrapper (UpdateWrapper objInfo old) res) cv uv force opts)"
    and "UpdatedObject (UpdateWrapper (UpdateWrapper objInfo old) res) h cur
           = UpdatedObject objInfo h old"
    and "identityOf (heap (snd (Update mode d name objInfo cv uv force opts s0))) res
           = identityOf (heap s7) old"
  using Update_found_identity(1,3) [OF assms]
  by (simp_all add: runTask_Update_reaches del: runTask.simps)

text \<open>
  Claim C7. In every Update call whose fetch finds a copy in the secondary store, the
  directive passed to the secondary store's Update is the caller's, wrapped around that
  copy and around the primary result. The code does so only when it gets that far. With a
  primary store that fails and returns nil, and with a primary store that succeeds with an
  object exposing no identity metadata, the fetch finds the copy at address 2, and Update
  panics on the nil accessor of the primary result: no goroutine is launched, so no
  directive at all reaches the secondary store's Update.
\<close>

theorem Update_found_copy_panics:
  "snd (snd (fst (sUpdate (Legacy primaryDown) (heap state0) ''x'' keepCurrent
        (ValidateObjectFunc 0) (ValidateObjectUpdateFunc 0) False someOptions)))
       = Some unreachable
   \<and> snd (snd (snd (fst (exUpdateFetch primaryDown)))) = Ref 2
   \<and> fst (exUpdate primaryDown) = Panic
   \<and> tasks (snd (exUpdate primaryDown)) = []
   \<and> snd (snd (fst (sUpdate (Legacy opaquePrimary) (heap state0) ''x'' keepCurrent
        (ValidateObjectFunc 0) (ValidateObjectUpdateFunc 0) False someOptions))) = None
   \<and> snd (snd (snd (fst (exUpdateFetch opaquePrimary)))) = Ref 2
   \<and> fst (exUpdate opaquePrimary) = Panic
   \<and> tasks (snd (exUpdate opaquePrimary)) = []"
  by (simp add: run_defs example_defs)

end
